theory Spec2Isabelle
  imports Complex_Main
begin

section \<open>Faults\<close>

text \<open>
  The C++ sources signal failure in two ways that matter here: the Hypre backend throws
  \<open>NotImplementedException\<close> from its per-coordinate operations, and an index
  outside an allocated array is undefined behaviour. Both are values of \<open>fault\<close>;
  a function that can fail returns \<open>fault + 'a\<close> with \<open>Inl\<close> for the failure.
\<close>

datatype fault = NotImplementedException | ArrayBounds

definition bindF :: "fault + 'a \<Rightarrow> ('a \<Rightarrow> fault + 'b) \<Rightarrow> fault + 'b" where
  "bindF r k = (case r of Inl e \<Rightarrow> Inl e | Inr v \<Rightarrow> k v)"

text \<open>A loop whose body can fail: the first fault ends the loop.\<close>

fun foldF :: "('a \<Rightarrow> 's \<Rightarrow> fault + 's) \<Rightarrow> 'a list \<Rightarrow> 's \<Rightarrow> fault + 's" where
  "foldF f [] s = Inr s"
| "foldF f (x # xs) s = (case f x s of Inl e \<Rightarrow> Inl e | Inr s' \<Rightarrow> foldF f xs s')"

section \<open>The Hypre linear-system backend (HypreDoFLinearSystem.cc)\<close>

text \<open>
  \<open>CSRFormatView\<close> is the bulk view handed to the backend; \<open>solve\<close> reads its
  \<open>rows\<close>, \<open>rowsNbColumn\<close>, \<open>columns\<close> and \<open>values\<close>. A default-constructed
  view (\<open>m_csr_view = {}\<close>) is empty.
\<close>

record CSRFormatView =
  view_rows :: "int list"
  view_rowsNbColumn :: "int list"
  view_columns :: "int list"
  view_values :: "real list"

definition empty_view :: CSRFormatView where
  "empty_view = \<lparr>view_rows = [], view_rowsNbColumn = [], view_columns = [], view_values = []\<rparr>"

record HypreDoFLinearSystemImpl =
  m_csr_view :: CSRFormatView

definition hypre_matrixAddValue ::
  "HypreDoFLinearSystemImpl \<Rightarrow> nat \<Rightarrow> nat \<Rightarrow> real \<Rightarrow> fault + HypreDoFLinearSystemImpl" where
  "hypre_matrixAddValue s row column v = Inl NotImplementedException"

definition hypre_matrixSetValue ::
  "HypreDoFLinearSystemImpl \<Rightarrow> nat \<Rightarrow> nat \<Rightarrow> real \<Rightarrow> fault + HypreDoFLinearSystemImpl" where
  "hypre_matrixSetValue s row column v = Inl NotImplementedException"

definition hypre_eliminateRow ::
  "HypreDoFLinearSystemImpl \<Rightarrow> nat \<Rightarrow> real \<Rightarrow> fault + HypreDoFLinearSystemImpl" where
  "hypre_eliminateRow s row v = Inl NotImplementedException"

definition hypre_eliminateRowColumn ::
  "HypreDoFLinearSystemImpl \<Rightarrow> nat \<Rightarrow> real \<Rightarrow> fault + HypreDoFLinearSystemImpl" where
  "hypre_eliminateRowColumn s row v = Inl NotImplementedException"

definition hypre_clearValues :: "HypreDoFLinearSystemImpl \<Rightarrow> HypreDoFLinearSystemImpl" where
  "hypre_clearValues s = s\<lparr>m_csr_view := empty_view\<rparr>"

definition hypre_setCSRValues ::
  "HypreDoFLinearSystemImpl \<Rightarrow> CSRFormatView \<Rightarrow> HypreDoFLinearSystemImpl" where
  "hypre_setCSRValues s csr_view = s\<lparr>m_csr_view := csr_view\<rparr>"

definition hypre_hasSetCSRValues :: "HypreDoFLinearSystemImpl \<Rightarrow> bool" where
  "hypre_hasSetCSRValues s = True"

section \<open>Fixed-size dense matrices (FemUtils.h)\<close>

text \<open>
  \<open>FixedMatrix<N, M>\<close> stores \<open>N * M\<close> reals row by row in \<open>m_values\<close>;
  \<open>operator()(i, j)\<close> is \<open>m_values[i * M + j]\<close>. The model is the value list, with
  the column count passed where the template parameter is used. \<open>Real\<close> (a C++ double)
  is modelled by the real numbers: rounding is not part of the model.
\<close>

type_synonym FixedMatrix = "real list"

definition fm_at :: "nat \<Rightarrow> FixedMatrix \<Rightarrow> nat \<Rightarrow> nat \<Rightarrow> real" where
  "fm_at M a i j = a ! (i * M + j)"

definition multInPlace :: "real \<Rightarrow> FixedMatrix \<Rightarrow> FixedMatrix" where
  "multInPlace v a = map (\<lambda>e. e * v) a"

text \<open>
  \<open>matrixMultiplication<N, M>(a, b)\<close>: \<open>a\<close> is \<open>N\<close> by \<open>M\<close>, \<open>b\<close> is \<open>M\<close> by
  \<open>N\<close>; entry \<open>(i, j)\<close> of the zero-initialised result receives
  \<open>x = 0.0; for k: x += a(i, k) * b(k, j)\<close>.
\<close>

definition matrixMultiplication :: "nat \<Rightarrow> nat \<Rightarrow> FixedMatrix \<Rightarrow> FixedMatrix \<Rightarrow> FixedMatrix" where
  "matrixMultiplication N M a b =
     concat (map (\<lambda>i. map (\<lambda>j. 0 + foldl (\<lambda>x k. x + fm_at M a i k * fm_at N b k j) 0 [0..<M])
                          [0..<N]) [0..<N])"

text \<open>\<open>matrixTranspose<N, M>(a)\<close>: the \<open>M\<close> by \<open>N\<close> matrix with \<open>t(j, i) = a(i, j)\<close>.\<close>

definition matrixTranspose :: "nat \<Rightarrow> nat \<Rightarrow> FixedMatrix \<Rightarrow> FixedMatrix" where
  "matrixTranspose N M a = concat (map (\<lambda>j. map (\<lambda>i. fm_at M a i j) [0..<N]) [0..<M])"

section \<open>The mesh\<close>

datatype Real3 = Real3 real real real

fun r3x :: "Real3 \<Rightarrow> real" where "r3x (Real3 a b c) = a"
fun r3y :: "Real3 \<Rightarrow> real" where "r3y (Real3 a b c) = b"

datatype Real2 = Real2 real real

fun r2x :: "Real2 \<Rightarrow> real" where "r2x (Real2 a b) = a"
fun r2y :: "Real2 \<Rightarrow> real" where "r2y (Real2 a b) = b"

text \<open>
  The mesh is owned by the Arcane framework and read through accessors. Nodes, faces and
  cells are their local ids \<open>0..<nbNode\<close>, \<open>0..<nbFace\<close>, \<open>0..<nbCell\<close>, which is
  also the order in which \<open>allNodes()\<close> and \<open>allCells()\<close> enumerate them.
  \<open>nodeFaces n\<close> is \<open>node.faces()\<close>, \<open>faceNodeId f i\<close> is \<open>face.nodeId(i)\<close>,
  \<open>cellNodeId c i\<close> is \<open>cnc.nodeId(c, i)\<close>, \<open>nodeCells n\<close> is \<open>ncc.cells(n)\<close>,
  \<open>isOwn n\<close> is \<open>node.isOwn()\<close>. Counts and ids are the non-negative values of
  \<open>Int32\<close> variables and are natural numbers here; the capacity of the store, which the
  builders compute from two counts, is computed in \<open>Int32\<close> (see \<open>nnz\<close> below).
\<close>

record Mesh =
  nbNode :: nat
  nbFace :: nat
  nbCell :: nat
  nodeFaces :: "nat \<Rightarrow> nat list"
  faceNodeId :: "nat \<Rightarrow> nat \<Rightarrow> nat"
  cellNodeId :: "nat \<Rightarrow> nat \<Rightarrow> nat"
  nodeCells :: "nat \<Rightarrow> nat list"
  m_node_coord :: "nat \<Rightarrow> Real3"
  isOwn :: "nat \<Rightarrow> bool"

definition allNodes :: "Mesh \<Rightarrow> nat list" where
  "allNodes m = [0..<nbNode m]"

definition allCells :: "Mesh \<Rightarrow> nat list" where
  "allCells m = [0..<nbCell m]"

text \<open>\<open>cell.nodes()\<close> of a three-node cell.\<close>

definition cellNodes :: "Mesh \<Rightarrow> nat \<Rightarrow> nat list" where
  "cellNodes m c = [cellNodeId m c 0, cellNodeId m c 1, cellNodeId m c 2]"

text \<open>
  Modelled from the spec: the DoF numbering provider \<open>node_dof.dofId(node, 0)\<close> is not
  among the sources. Section 6 of the specification gives it: one DoF per node, the map
  from node id to DoF id is the identity, kept as an indirection.
\<close>

definition dofId :: "nat \<Rightarrow> nat" where
  "dofId n = n"

section \<open>The element kernel (FemModule.cc)\<close>

definition computeAreaTriangle3 :: "Mesh \<Rightarrow> nat \<Rightarrow> real" where
  "computeAreaTriangle3 m cell =
     (let m0 = m_node_coord m (cellNodeId m cell 0);
          m1 = m_node_coord m (cellNodeId m cell 1);
          m2 = m_node_coord m (cellNodeId m cell 2)
      in 0.5 * ((r3x m1 - r3x m0) * (r3y m2 - r3y m0) - (r3x m2 - r3x m0) * (r3y m1 - r3y m0)))"

definition computeElementMatrixTRIA3 :: "Mesh \<Rightarrow> nat \<Rightarrow> FixedMatrix" where
  "computeElementMatrixTRIA3 m cell =
     (let m0 = m_node_coord m (cellNodeId m cell 0);
          m1 = m_node_coord m (cellNodeId m cell 1);
          m2 = m_node_coord m (cellNodeId m cell 2);
          area = computeAreaTriangle3 m cell;
          dPhi0 = Real2 (r3y m1 - r3y m2) (r3x m2 - r3x m1);
          dPhi1 = Real2 (r3y m2 - r3y m0) (r3x m0 - r3x m2);
          dPhi2 = Real2 (r3y m0 - r3y m1) (r3x m1 - r3x m0);
          b_matrix = [r2x dPhi0, r2x dPhi1, r2x dPhi2,
                      r2y dPhi0, r2y dPhi1, r2y dPhi2];
          b_scaled = multInPlace (1 / (2 * area)) b_matrix;
          int_cdPi_dPj = matrixMultiplication 3 2 (matrixTranspose 2 3 b_scaled) b_scaled
      in multInPlace area int_cdPi_dPj)"

definition computeAreaTriangle3Gpu :: "Mesh \<Rightarrow> nat \<Rightarrow> real" where
  "computeAreaTriangle3Gpu m icell =
     (let m0 = m_node_coord m (cellNodeId m icell 0);
          m1 = m_node_coord m (cellNodeId m icell 1);
          m2 = m_node_coord m (cellNodeId m icell 2)
      in 0.5 * ((r3x m1 - r3x m0) * (r3y m2 - r3y m0) - (r3x m2 - r3x m0) * (r3y m1 - r3y m0)))"

text \<open>
  \<open>_computeElementMatrixTRIA3GPU\<close> fills \<open>K_e[9]\<close>: \<open>b_matrix[k][i]\<close> is component
  \<open>k\<close> of \<open>dPhi_i\<close> times \<open>1.0 / (2.0 * area)\<close>, and
  \<open>K_e[i * 3 + j] = (sum over k of b_matrix[k][i] * b_matrix[k][j]) * area\<close>.
\<close>

definition computeElementMatrixTRIA3GPU :: "Mesh \<Rightarrow> nat \<Rightarrow> real list" where
  "computeElementMatrixTRIA3GPU m icell =
     (let m0 = m_node_coord m (cellNodeId m icell 0);
          m1 = m_node_coord m (cellNodeId m icell 1);
          m2 = m_node_coord m (cellNodeId m icell 2);
          area = 0.5 * ((r3x m1 - r3x m0) * (r3y m2 - r3y m0) - (r3x m2 - r3x m0) * (r3y m1 - r3y m0));
          dPhi0 = Real2 (r3y m1 - r3y m2) (r3x m2 - r3x m1);
          dPhi1 = Real2 (r3y m2 - r3y m0) (r3x m0 - r3x m2);
          dPhi2 = Real2 (r3y m0 - r3y m1) (r3x m1 - r3x m0);
          b_matrix = [[r2x dPhi0 * (1 / (2 * area)), r2x dPhi1 * (1 / (2 * area)), r2x dPhi2 * (1 / (2 * area))],
                      [r2y dPhi0 * (1 / (2 * area)), r2y dPhi1 * (1 / (2 * area)), r2y dPhi2 * (1 / (2 * area))]]
      in concat (map (\<lambda>i. map (\<lambda>j. foldl (\<lambda>x k. x + b_matrix ! k ! i * b_matrix ! k ! j) 0 [0, 1] * area)
                              [0, 1, 2]) [0, 1, 2]))"

text \<open>
  \<open>_computeCellMatrixGpuTRIA3\<close> returns the area and fills \<open>b_matrix[6]\<close> with the
  scaled gradients, two entries per node.
\<close>

definition computeCellMatrixGpuTRIA3 :: "Mesh \<Rightarrow> nat \<Rightarrow> real \<times> real list" where
  "computeCellMatrixGpuTRIA3 m icell =
     (let m0 = m_node_coord m (cellNodeId m icell 0);
          m1 = m_node_coord m (cellNodeId m icell 1);
          m2 = m_node_coord m (cellNodeId m icell 2);
          area = computeAreaTriangle3Gpu m icell;
          dPhi0 = Real2 (r3y m1 - r3y m2) (r3x m2 - r3x m1);
          dPhi1 = Real2 (r3y m2 - r3y m0) (r3x m0 - r3x m2);
          dPhi2 = Real2 (r3y m0 - r3y m1) (r3x m1 - r3x m0);
          mul = 1 / (2 * area)
      in (area, [r2x dPhi0 * mul, r2y dPhi0 * mul,
                 r2x dPhi1 * mul, r2y dPhi1 * mul,
                 r2x dPhi2 * mul, r2y dPhi2 * mul]))"




section \<open>The CSR store and the sparsity builders\<close>

text \<open>
  The arrays of \<open>CsrFormat\<close> that the assembly code reads and writes directly. Row
  offsets are natural numbers; column ids are integers, \<open>-1\<close> marking an unclaimed slot.
\<close>

record CsrFormat =
  m_matrix_row :: "nat list"
  m_matrix_column :: "int list"
  m_matrix_value :: "real list"

text \<open>
  \<open>Int32\<close> arithmetic: the result of an operation on 32-bit signed integers is the
  mathematical result brought back into \<open>-2^31 ..< 2^31\<close> modulo \<open>2^32\<close>.
\<close>

definition int32 :: "int \<Rightarrow> int" where
  "int32 x = (x + 2147483648) mod 4294967296 - 2147483648"

text \<open>
  \<open>Int32 nnz = nbFace() * 2 + nbNode()\<close>, the capacity every builder computes before it
  initialises its store.
\<close>

definition nnz :: "Mesh \<Rightarrow> int" where
  "nnz m = int32 (int32 (int (nbFace m) * 2) + int (nbNode m))"

text \<open>
  Modelled from the spec: \<open>CsrFormat::initialize(dof_family, nnz, nbRow)\<close> is not among
  the sources. Section 4.2 of the specification: the column and value arrays are allocated
  to the total capacity and initialised to the sentinel and to zero. Two things are left
  open by the specification and the sources. How many entries the row array receives: the
  row array as allocated is the argument \<open>row\<close>. What happens with a capacity that has
  wrapped below zero: no slot is allocated then.
\<close>

definition csr_initialize :: "int \<Rightarrow> nat list \<Rightarrow> CsrFormat" where
  "csr_initialize capacity row =
     \<lparr>m_matrix_row = row,
      m_matrix_column = replicate (nat capacity) (- 1),
      m_matrix_value = replicate (nat capacity) 0\<rparr>"

text \<open>
  Modelled from the spec: \<open>ax::Scanner<Int32>::exclusiveSum\<close> belongs to the Arcane
  accelerator library. Section 4.2: an exclusive prefix sum over the per-node counts gives
  the row offsets; entry \<open>i\<close> of the output is the sum of the inputs before \<open>i\<close>.
\<close>

fun exclusiveSum_from :: "nat \<Rightarrow> nat list \<Rightarrow> nat list" where
  "exclusiveSum_from acc [] = []"
| "exclusiveSum_from acc (x # xs) = acc # exclusiveSum_from (acc + x) xs"

definition exclusiveSum :: "nat list \<Rightarrow> nat list" where
  "exclusiveSum xs = exclusiveSum_from 0 xs"

text \<open>
  \<open>_buildMatrixGpuBuildLessCsr\<close> (BlCsrBiliAssembly.hxx): every node writes
  \<open>nbFace(node) + 1\<close> at its DoF index of \<open>tmp_row\<close>, then the scan produces the row
  offsets. The node loop runs on the accelerator; each node writes a slot of its own, so
  the order of the loop does not matter. The row array of the result is the output of the
  scan, one offset per node: the scatter code treats \<open>row == row_csr_size - 1\<close> as the
  last row.
\<close>

definition buildMatrixGpuBuildLessCsr :: "Mesh \<Rightarrow> CsrFormat" where
  "buildMatrixGpuBuildLessCsr m =
     (let nbnde = nbNode m;
          tmp_row = fold (\<lambda>inode t. t[dofId inode := length (nodeFaces m inode) + 1])
                         (allNodes m) (replicate nbnde 0)
      in csr_initialize (nnz m) (exclusiveSum tmp_row))"

text \<open>
  \<open>_buildMatrixBuildLessCsr\<close>, the host variant: \<open>m_matrix_row(0) = 0\<close> is written
  before the node loop, unguarded; inside the loop \<open>index < nbnde\<close> guards each write.
  The builder writes into the row array that \<open>initialize\<close> allocated; that array is the
  parameter \<open>row0\<close>, and a write at an index it does not have is the fault
  \<open>ArrayBounds\<close>.
\<close>

definition buildLessCsr_row_step ::
  "Mesh \<Rightarrow> nat \<Rightarrow> nat \<Rightarrow> nat \<times> nat list \<Rightarrow> fault + (nat \<times> nat list)" where
  "buildLessCsr_row_step m nbnde node st =
     (case st of (index, row) \<Rightarrow>
        if index < nbnde
        then (if length row \<le> index then Inl ArrayBounds
              else Inr (index + 1, row[index := length (nodeFaces m node) + row ! (index - 1) + 1]))
        else Inr (index, row))"

definition buildMatrixBuildLessCsr :: "nat list \<Rightarrow> Mesh \<Rightarrow> fault + CsrFormat" where
  "buildMatrixBuildLessCsr row0 m =
     (let nbnde = nbNode m;
          csr = csr_initialize (nnz m) row0
      in if length (m_matrix_row csr) \<le> 0 then Inl ArrayBounds
         else (case foldF (buildLessCsr_row_step m nbnde) (allNodes m)
                          (1, (m_matrix_row csr)[0 := 0]) of
                 Inl e \<Rightarrow> Inl e
               | Inr (index, row) \<Rightarrow> Inr (csr\<lparr>m_matrix_row := row\<rparr>)))"

text \<open>
  The methods of \<open>CsrFormat\<close> and \<open>CooFormat\<close> themselves are not among the sources.
  The sequential builders are therefore modelled by the calls they make on the store, in
  order.
\<close>

datatype store_call =
    Initialize int nat
  | InitializeCoo int
  | SetCoordinates nat nat
  | MatrixAddValue nat nat real

text \<open>
  \<open>_buildMatrixCsr\<close> (CsrBiliAssembly.hxx). The column of a face entry is chosen by
  \<open>face.nodeId(0) ? dofId(face.nodeId(1)) : dofId(face.nodeId(1))\<close>: both branches of
  the conditional are the same expression.
\<close>

definition buildMatrixCsr :: "Mesh \<Rightarrow> store_call list" where
  "buildMatrixCsr m =
     (Initialize (nnz m) (nbNode m) #
         concat (map (\<lambda>node.
           (let node_dof_id = dofId node
            in SetCoordinates node_dof_id node_dof_id #
               map (\<lambda>face.
                      SetCoordinates node_dof_id
                        (if faceNodeId m face 0 \<noteq> 0 then dofId (faceNodeId m face 1)
                         else dofId (faceNodeId m face 1)))
                   (nodeFaces m node)))
           (allNodes m)))"

text \<open>
  \<open>_buildMatrixGPU\<close> (FemModule.cc), the COO builder: the column is the endpoint of the
  face that is not the node itself.
\<close>

definition buildMatrixGPU :: "Mesh \<Rightarrow> store_call list" where
  "buildMatrixGPU m =
     (InitializeCoo (nnz m) #
         concat (map (\<lambda>node.
           SetCoordinates (dofId node) (dofId node) #
           map (\<lambda>face.
                  if faceNodeId m face 0 = node
                  then SetCoordinates (dofId node) (dofId (faceNodeId m face 1))
                  else SetCoordinates (dofId node) (dofId (faceNodeId m face 0)))
               (nodeFaces m node))
           (allNodes m)))"

text \<open>
  The columns that a sequence of store calls inserts for a row, in order and with
  repetitions.
\<close>

definition insertedColumns :: "store_call list \<Rightarrow> nat \<Rightarrow> nat list" where
  "insertedColumns calls row =
     concat (map (\<lambda>c. case c of SetCoordinates r col \<Rightarrow> (if r = row then [col] else [])
                              | _ \<Rightarrow> []) calls)"

section \<open>The scatter assemblers\<close>

text \<open>
  \<open>_addValueToGlobalMatrixTria3Gpu\<close> (BlCsrBiliAssembly.hxx): the linear probe of the
  build-less path over the slots \<open>begin..<end\<close>. The first sentinel slot is claimed for
  \<open>col\<close> and receives \<open>x\<close>; a slot that already holds \<open>col\<close> accumulates \<open>x\<close>;
  when the loop runs off \<open>end\<close> the function returns and nothing has been written.
  An index outside an array is the fault \<open>ArrayBounds\<close>.
\<close>

function addValueToGlobalMatrixTria3Gpu ::
  "nat \<Rightarrow> nat \<Rightarrow> int \<Rightarrow> int list \<Rightarrow> real list \<Rightarrow> real \<Rightarrow> fault + (int list \<times> real list)" where
  "addValueToGlobalMatrixTria3Gpu begin end col in_out_col_csr in_out_val_csr x =
     (if begin < end then
        (if length in_out_col_csr \<le> begin then Inl ArrayBounds
         else if in_out_col_csr ! begin = - 1 then
           (if length in_out_val_csr \<le> begin then Inl ArrayBounds
            else Inr (in_out_col_csr[begin := col], in_out_val_csr[begin := x]))
         else if in_out_col_csr ! begin = col then
           (if length in_out_val_csr \<le> begin then Inl ArrayBounds
            else Inr (in_out_col_csr, in_out_val_csr[begin := in_out_val_csr ! begin + x]))
         else addValueToGlobalMatrixTria3Gpu (begin + 1) end col in_out_col_csr in_out_val_csr x)
      else Inr (in_out_col_csr, in_out_val_csr))"
  by pat_completeness auto
termination
  by (relation "measure (\<lambda>(begin, end, col, cs, vs, x). end - begin)") auto

declare addValueToGlobalMatrixTria3Gpu.simps [simp del]

text \<open>
  The probe written inline in \<open>_assembleCsrAllGPUBilinearOperatorTRIA3\<close>
  (CsrGpuBiliAssembly.hxx): the matching column is tested first and accumulates with an
  atomic add, then the sentinel is tested and claimed with two plain stores.
\<close>

function csrGpuProbe ::
  "nat \<Rightarrow> nat \<Rightarrow> int \<Rightarrow> int list \<Rightarrow> real list \<Rightarrow> real \<Rightarrow> fault + (int list \<times> real list)" where
  "csrGpuProbe begin end col in_out_col_csr in_out_val_csr v =
     (if begin < end then
        (if length in_out_col_csr \<le> begin then Inl ArrayBounds
         else if in_out_col_csr ! begin = col then
           (if length in_out_val_csr \<le> begin then Inl ArrayBounds
            else Inr (in_out_col_csr, in_out_val_csr[begin := in_out_val_csr ! begin + v]))
         else if in_out_col_csr ! begin = - 1 then
           (if length in_out_val_csr \<le> begin then Inl ArrayBounds
            else Inr (in_out_col_csr[begin := col], in_out_val_csr[begin := v]))
         else csrGpuProbe (begin + 1) end col in_out_col_csr in_out_val_csr v)
      else Inr (in_out_col_csr, in_out_val_csr))"
  by pat_completeness auto
termination
  by (relation "measure (\<lambda>(begin, end, col, cs, vs, v). end - begin)") auto

declare csrGpuProbe.simps [simp del]

text \<open>
  Both device paths compute the slots of a row in the same way: \<open>begin = in_row_csr[row]\<close>,
  and \<open>end\<close> is the size of the column array for the last row
  (\<open>row == row_csr_size - 1\<close>) and \<open>in_row_csr[row + 1]\<close> otherwise.
\<close>

definition rowBegin :: "CsrFormat \<Rightarrow> nat \<Rightarrow> nat" where
  "rowBegin csr row = m_matrix_row csr ! row"

definition rowEnd :: "CsrFormat \<Rightarrow> nat \<Rightarrow> nat" where
  "rowEnd csr row =
     (if row + 1 = length (m_matrix_row csr) then length (m_matrix_column csr)
      else m_matrix_row csr ! (row + 1))"

text \<open>
  One scatter-add of a device path: \<open>probe\<close> is the linear probe of the path. Reading
  the offset of a row that the row array does not have is the fault \<open>ArrayBounds\<close>.
\<close>

definition scatterAdd ::
  "(nat \<Rightarrow> nat \<Rightarrow> int \<Rightarrow> int list \<Rightarrow> real list \<Rightarrow> real \<Rightarrow> fault + (int list \<times> real list))
   \<Rightarrow> nat \<Rightarrow> nat \<Rightarrow> real \<Rightarrow> CsrFormat \<Rightarrow> fault + CsrFormat" where
  "scatterAdd probe node1 node2 v csr =
     (let row = dofId node1;
          col = int (dofId node2)
      in if length (m_matrix_row csr) \<le> row then Inl ArrayBounds
         else (case probe (rowBegin csr row) (rowEnd csr row) col
                      (m_matrix_column csr) (m_matrix_value csr) v of
                 Inl e \<Rightarrow> Inl e
               | Inr (cs, vs) \<Rightarrow> Inr (csr\<lparr>m_matrix_column := cs, m_matrix_value := vs\<rparr>)))"

text \<open>
  \<open>_assembleCsrAllGPUBilinearOperatorTRIA3\<close>: the row offsets come from
  \<open>_buildMatrixGpuBuildLessCsr\<close>; every cell computes \<open>K_e\<close> and scatters its nine
  entries, each guarded by \<open>nodes_infos.isOwn(node1)\<close>. The cell loop runs on the
  accelerator; the model runs the cells one after the other in the order given.
\<close>

definition csrGpuCell :: "Mesh \<Rightarrow> nat \<Rightarrow> CsrFormat \<Rightarrow> fault + CsrFormat" where
  "csrGpuCell m icell csr =
     (let K_e = computeElementMatrixTRIA3GPU m icell
      in foldF (\<lambda>(n1_index, node1).
           foldF (\<lambda>(n2_index, node2) csr'.
                    (let v = K_e ! (n1_index * 3 + n2_index)
                     in if isOwn m node1 then scatterAdd csrGpuProbe node1 node2 v csr'
                        else Inr csr'))
                 (enumerate 0 (cellNodes m icell)))
           (enumerate 0 (cellNodes m icell)) csr)"

definition csrGpuCells :: "Mesh \<Rightarrow> nat list \<Rightarrow> CsrFormat \<Rightarrow> fault + CsrFormat" where
  "csrGpuCells m cells csr = foldF (csrGpuCell m) cells csr"

definition assembleCsrAllGPUBilinearOperatorTRIA3 :: "Mesh \<Rightarrow> fault + CsrFormat" where
  "assembleCsrAllGPUBilinearOperatorTRIA3 m =
     csrGpuCells m (allCells m) (buildMatrixGpuBuildLessCsr m)"

text \<open>
  \<open>_assembleBuildLessCsrBilinearOperatorTria3\<close>: one unit of work per node. For every
  cell around the node the local index of the node in the cell is looked up, the scaled
  gradients are recomputed, and the three entries of the node's row are scattered with
  \<open>_addValueToGlobalMatrixTria3Gpu\<close>, each guarded by \<open>nodes_infos.isOwn(inode)\<close>.
\<close>

definition buildLessNodeCell :: "Mesh \<Rightarrow> nat \<Rightarrow> nat \<Rightarrow> CsrFormat \<Rightarrow> fault + CsrFormat" where
  "buildLessNodeCell m inode cell csr =
     (let inode_index = (if inode = cellNodeId m cell 1 then 1
                         else if inode = cellNodeId m cell 2 then 2
                         else 0);
          (area, b_matrix) = computeCellMatrixGpuTRIA3 m cell
      in foldF (\<lambda>(i, node2) csr'.
                  (let x = foldl (\<lambda>x k. x + b_matrix ! (inode_index * 2 + k) * b_matrix ! (i * 2 + k))
                                 0 [0, 1] * area
                   in if isOwn m inode
                      then scatterAdd addValueToGlobalMatrixTria3Gpu inode node2 x csr'
                      else Inr csr'))
               (enumerate 0 (cellNodes m cell)) csr)"

definition buildLessNode :: "Mesh \<Rightarrow> nat \<Rightarrow> CsrFormat \<Rightarrow> fault + CsrFormat" where
  "buildLessNode m inode csr = foldF (buildLessNodeCell m inode) (nodeCells m inode) csr"

definition buildLessNodes :: "Mesh \<Rightarrow> nat list \<Rightarrow> CsrFormat \<Rightarrow> fault + CsrFormat" where
  "buildLessNodes m nodes csr = foldF (buildLessNode m) nodes csr"

definition assembleBuildLessCsrBilinearOperatorTria3 :: "Mesh \<Rightarrow> fault + CsrFormat" where
  "assembleBuildLessCsrBilinearOperatorTria3 m =
     buildLessNodes m (allNodes m) (buildMatrixGpuBuildLessCsr m)"

text \<open>
  \<open>_assembleCsrBilinearOperatorTRIA3\<close> (CsrBiliAssembly.hxx), the sequential path, as
  the calls it makes on the store: the calls of \<open>_buildMatrixCsr\<close>, then for every cell
  the nine \<open>matrixAddValue\<close> calls, each guarded by \<open>node1.isOwn()\<close>.
\<close>

definition csrCellCalls :: "Mesh \<Rightarrow> nat \<Rightarrow> store_call list" where
  "csrCellCalls m cell =
     (let K_e = computeElementMatrixTRIA3 m cell
      in concat (map (\<lambda>(n1_index, node1).
           concat (map (\<lambda>(n2_index, node2).
                          (let v = fm_at 3 K_e n1_index n2_index
                           in if isOwn m node1
                              then [MatrixAddValue (dofId node1) (dofId node2) v]
                              else []))
                       (enumerate 0 (cellNodes m cell))))
           (enumerate 0 (cellNodes m cell))))"

definition assembleCsrBilinearOperatorTRIA3 :: "Mesh \<Rightarrow> store_call list" where
  "assembleCsrBilinearOperatorTRIA3 m =
     buildMatrixCsr m @ concat (map (csrCellCalls m) (allCells m))"

section \<open>Concurrent units of the device CSR path\<close>

text \<open>
  On the accelerator the cells of \<open>_assembleCsrAllGPUBilinearOperatorTRIA3\<close> run as
  concurrent units over the shared column and value arrays. One unit executing the inline
  probe for one entry is a small state machine in which every step makes at most one access
  to shared memory, in program order:
  \<^item> \<open>AtLoop\<close>: the loop test \<open>begin < end\<close> and the read of
    \<open>in_out_col_csr[begin]\<close> for the test \<open>== col\<close>;
  \<^item> \<open>AtSentinelTest\<close>: the read of \<open>in_out_col_csr[begin]\<close> for the test
    \<open>== -1\<close>, and \<open>begin++\<close> when it fails;
  \<^item> \<open>AtStoreColumn\<close>: the plain store \<open>in_out_col_csr[begin] = col\<close>;
  \<^item> \<open>AtStoreValue\<close>: the plain store \<open>in_out_val_csr(begin) = v\<close>;
  \<^item> \<open>AtAtomicAdd\<close>: \<open>ax::doAtomic<Add>(in_out_val_csr(begin), v)\<close>, one
    indivisible read-modify-write;
  \<^item> \<open>Finished\<close>: after \<open>break\<close> or after the loop.
  Steps of different units interleave in any order; memory is sequentially consistent.
\<close>

datatype probe_pc = AtLoop | AtSentinelTest | AtStoreColumn | AtStoreValue | AtAtomicAdd | Finished

record probe_unit =
  unit_pc :: probe_pc
  unit_begin :: nat
  unit_end :: nat
  unit_col :: int
  unit_v :: real

record shared_arrays =
  sh_col :: "int list"
  sh_val :: "real list"

definition unit_start :: "nat \<Rightarrow> nat \<Rightarrow> int \<Rightarrow> real \<Rightarrow> probe_unit" where
  "unit_start b e c v = \<lparr>unit_pc = AtLoop, unit_begin = b, unit_end = e, unit_col = c, unit_v = v\<rparr>"

fun unit_step :: "probe_unit \<Rightarrow> shared_arrays \<Rightarrow> probe_unit \<times> shared_arrays" where
  "unit_step u sh =
     (case unit_pc u of
        AtLoop \<Rightarrow>
          (if unit_begin u < unit_end u then
             (if sh_col sh ! unit_begin u = unit_col u then (u\<lparr>unit_pc := AtAtomicAdd\<rparr>, sh)
              else (u\<lparr>unit_pc := AtSentinelTest\<rparr>, sh))
           else (u\<lparr>unit_pc := Finished\<rparr>, sh))
      | AtSentinelTest \<Rightarrow>
          (if sh_col sh ! unit_begin u = - 1 then (u\<lparr>unit_pc := AtStoreColumn\<rparr>, sh)
           else (u\<lparr>unit_pc := AtLoop, unit_begin := unit_begin u + 1\<rparr>, sh))
      | AtStoreColumn \<Rightarrow>
          (u\<lparr>unit_pc := AtStoreValue\<rparr>, sh\<lparr>sh_col := (sh_col sh)[unit_begin u := unit_col u]\<rparr>)
      | AtStoreValue \<Rightarrow>
          (u\<lparr>unit_pc := Finished\<rparr>, sh\<lparr>sh_val := (sh_val sh)[unit_begin u := unit_v u]\<rparr>)
      | AtAtomicAdd \<Rightarrow>
          (u\<lparr>unit_pc := Finished\<rparr>,
           sh\<lparr>sh_val := (sh_val sh)[unit_begin u := sh_val sh ! unit_begin u + unit_v u]\<rparr>)
      | Finished \<Rightarrow> (u, sh))"

text \<open>
  A schedule names, step by step, the unit that moves next. \<open>run_schedule\<close> executes it
  from the given units and arrays.
\<close>

fun run_schedule :: "nat list \<Rightarrow> probe_unit list \<times> shared_arrays \<Rightarrow> probe_unit list \<times> shared_arrays" where
  "run_schedule [] st = st"
| "run_schedule (i # sched) (us, sh) =
     (if i < length us
      then (case unit_step (us ! i) sh of (u', sh') \<Rightarrow> run_schedule sched (us[i := u'], sh'))
      else run_schedule sched (us, sh))"

text \<open>
  One cell of \<open>_assembleCsrAllGPUBilinearOperatorTRIA3\<close> as a concurrent unit: \<open>K_e\<close>
  is computed from the coordinates, then the entries \<open>(node1, node2)\<close> of the cell are
  scattered in program order, those whose \<open>node1\<close> is owned, each by the inline probe
  over the span of its row. The row offsets are only read during the pass, so the spans are
  those of the store as built. \<open>cellProbes\<close> lists the probes of a cell in program order.
\<close>

definition cellProbes :: "Mesh \<Rightarrow> CsrFormat \<Rightarrow> nat \<Rightarrow> probe_unit list" where
  "cellProbes m csr icell =
     (let K_e = computeElementMatrixTRIA3GPU m icell
      in concat (map (\<lambda>(n1_index, node1).
           concat (map (\<lambda>(n2_index, node2).
                          (let v = K_e ! (n1_index * 3 + n2_index)
                           in if isOwn m node1
                              then [unit_start (rowBegin csr (dofId node1)) (rowEnd csr (dofId node1))
                                               (int (dofId node2)) v]
                              else []))
                       (enumerate 0 (cellNodes m icell))))
           (enumerate 0 (cellNodes m icell))))"

text \<open>
  A step of a cell unit is a step of its current probe; when the probe finishes the unit
  moves on to the next one. A cell unit without probes left has finished.
\<close>

fun cell_step :: "probe_unit list \<Rightarrow> shared_arrays \<Rightarrow> probe_unit list \<times> shared_arrays" where
  "cell_step [] sh = ([], sh)"
| "cell_step (u # us) sh =
     (case unit_step u sh of (u', sh') \<Rightarrow> ((if unit_pc u' = Finished then us else u' # us), sh'))"

fun run_cells ::
  "nat list \<Rightarrow> probe_unit list list \<times> shared_arrays \<Rightarrow> probe_unit list list \<times> shared_arrays" where
  "run_cells [] st = st"
| "run_cells (i # sched) (cs, sh) =
     (if i < length cs
      then (case cell_step (cs ! i) sh of (c', sh') \<Rightarrow> run_cells sched (cs[i := c'], sh'))
      else run_cells sched (cs, sh))"

text \<open>
  The device CSR path with its cells run as concurrent units under a schedule, from the
  store as built: the probes the units still have to run when the schedule ends, and the
  store.
\<close>

definition assembleCsrAllGPU_scheduled :: "Mesh \<Rightarrow> nat list \<Rightarrow> probe_unit list list \<times> CsrFormat" where
  "assembleCsrAllGPU_scheduled m sched =
     (let csr = buildMatrixGpuBuildLessCsr m
      in case run_cells sched (map (cellProbes m csr) (allCells m),
                               \<lparr>sh_col = m_matrix_column csr, sh_val = m_matrix_value csr\<rparr>) of
           (cs, sh) \<Rightarrow> (cs, csr\<lparr>m_matrix_column := sh_col sh, m_matrix_value := sh_val sh\<rparr>))"

section \<open>Entries of the assembled matrix\<close>

text \<open>
  The value of entry \<open>(row, col)\<close> of the matrix a store holds: the sum of the values of
  the slots of the row that hold column \<open>col\<close>, zero when no slot does.
\<close>

definition csrEntry :: "CsrFormat \<Rightarrow> nat \<Rightarrow> nat \<Rightarrow> real" where
  "csrEntry csr row col =
     sum_list (map (\<lambda>k. if m_matrix_column csr ! k = int col then m_matrix_value csr ! k else 0)
                   [rowBegin csr row ..< rowEnd csr row])"

text \<open>
  Agreement of two accumulated values up to the relative tolerance \<open>1e-10\<close> that the
  specification allows for a different order of summation.
\<close>

definition withinTolerance :: "real \<Rightarrow> real \<Rightarrow> bool" where
  "withinTolerance a b \<longleftrightarrow> \<bar>a - b\<bar> \<le> (1 / 10000000000) * max \<bar>a\<bar> \<bar>b\<bar>"

section \<open>Dirichlet enforcement in the linear operator (FemModule.cc)\<close>

text \<open>
  Modelled from the spec: \<open>DoFLinearSystem::matrixSetValue\<close> and
  \<open>DoFLinearSystem::matrixAddValue\<close> of the default backend are not among the sources
  (only the Hypre backend is). Section 4.4 of the specification: \<open>set(row, col, value)\<close>
  overwrites the entry, \<open>add(row, col, value)\<close> accumulates into it. The matrix is the
  function from coordinates to values.
\<close>

type_synonym dense_matrix = "nat \<Rightarrow> nat \<Rightarrow> real"

definition dense_matrixSetValue :: "dense_matrix \<Rightarrow> nat \<Rightarrow> nat \<Rightarrow> real \<Rightarrow> fault + dense_matrix" where
  "dense_matrixSetValue K row column v = Inr (K(row := (K row)(column := v)))"

definition dense_matrixAddValue :: "dense_matrix \<Rightarrow> nat \<Rightarrow> nat \<Rightarrow> real \<Rightarrow> fault + dense_matrix" where
  "dense_matrixAddValue K row column v = Inr (K(row := (K row)(column := K row column + v)))"

text \<open>\<open>ownNodes()\<close>: the nodes of the partition, in enumeration order.\<close>

definition ownNodes :: "Mesh \<Rightarrow> nat list" where
  "ownNodes m = filter (isOwn m) (allNodes m)"

text \<open>
  The body of the node loop of the Penalty and WeakPenalty branches of
  \<open>_assembleLinearOperator\<close>. The two branches differ only in the operation called on
  the linear system, passed as \<open>matrixOp\<close>. \<open>rhs_values\<close> has one entry per DoF.
\<close>

definition enforceDirichletNode ::
  "('s \<Rightarrow> nat \<Rightarrow> nat \<Rightarrow> real \<Rightarrow> fault + 's) \<Rightarrow> real \<Rightarrow> (nat \<Rightarrow> bool) \<Rightarrow> (nat \<Rightarrow> real)
   \<Rightarrow> nat \<Rightarrow> 's \<times> real list \<Rightarrow> fault + ('s \<times> real list)" where
  "enforceDirichletNode matrixOp Penalty m_u_dirichlet m_u node_id st =
     (case st of (linear_system, rhs_values) \<Rightarrow>
        if m_u_dirichlet node_id then
          (let dof_id = dofId node_id
           in case matrixOp linear_system dof_id dof_id Penalty of
                Inl e \<Rightarrow> Inl e
              | Inr linear_system' \<Rightarrow>
                  (let u_g = Penalty * m_u node_id
                   in if length rhs_values \<le> dof_id then Inl ArrayBounds
                      else Inr (linear_system', rhs_values[dof_id := u_g])))
        else Inr st)"

text \<open>
  The start of \<open>_assembleLinearOperator\<close>: \<open>rhs_values.fill(0.0)\<close>, then the branch
  chosen by \<open>options()->enforceDirichletMethod()\<close>. The RowElimination and
  RowColumnElimination branches are empty in the source, and any other method only logs.
  The source and flux terms assembled afterwards skip every Dirichlet node.
\<close>

definition assembleLinearOperator_enforceDirichlet ::
  "('s \<Rightarrow> nat \<Rightarrow> nat \<Rightarrow> real \<Rightarrow> fault + 's) \<Rightarrow> ('s \<Rightarrow> nat \<Rightarrow> nat \<Rightarrow> real \<Rightarrow> fault + 's)
   \<Rightarrow> string \<Rightarrow> real \<Rightarrow> Mesh \<Rightarrow> (nat \<Rightarrow> bool) \<Rightarrow> (nat \<Rightarrow> real) \<Rightarrow> 's \<Rightarrow> fault + ('s \<times> real list)" where
  "assembleLinearOperator_enforceDirichlet matrixSetValue matrixAddValue enforceDirichletMethod
       Penalty m m_u_dirichlet m_u linear_system =
     (let rhs_values = replicate (nbNode m) 0
      in if enforceDirichletMethod = ''Penalty'' then
           foldF (enforceDirichletNode matrixSetValue Penalty m_u_dirichlet m_u)
                 (ownNodes m) (linear_system, rhs_values)
         else if enforceDirichletMethod = ''WeakPenalty'' then
           foldF (enforceDirichletNode matrixAddValue Penalty m_u_dirichlet m_u)
                 (ownNodes m) (linear_system, rhs_values)
         else Inr (linear_system, rhs_values))"

section \<open>Well-formed connectivity\<close>

text \<open>
  The connectivity the mesh framework maintains: every face has two distinct end nodes of
  the mesh, and \<open>node.faces()\<close> lists, once each, exactly the faces that have the node
  as an end.
\<close>

definition facesOfNode :: "Mesh \<Rightarrow> nat \<Rightarrow> nat list" where
  "facesOfNode m n = filter (\<lambda>f. faceNodeId m f 0 = n \<or> faceNodeId m f 1 = n) [0..<nbFace m]"

definition faceConnectivity :: "Mesh \<Rightarrow> bool" where
  "faceConnectivity m \<longleftrightarrow>
     list_all (\<lambda>f. faceNodeId m f 0 < nbNode m \<and> faceNodeId m f 1 < nbNode m
                   \<and> faceNodeId m f 0 \<noteq> faceNodeId m f 1) [0..<nbFace m]
     \<and> list_all (\<lambda>n. distinct (nodeFaces m n) \<and> set (nodeFaces m n) = set (facesOfNode m n))
                 [0..<nbNode m]"

text \<open>The number of slots the scatter code finds for a row: \<open>end - begin\<close>.\<close>

definition rowSize :: "CsrFormat \<Rightarrow> nat \<Rightarrow> nat" where
  "rowSize csr row = rowEnd csr row - rowBegin csr row"

section \<open>Slots of owned rows\<close>

text \<open>
  Slot \<open>k\<close> of the column and value arrays belongs to the row of an owned node of the
  mesh.
\<close>

definition ownRowSlot :: "Mesh \<Rightarrow> CsrFormat \<Rightarrow> nat \<Rightarrow> bool" where
  "ownRowSlot m csr k \<longleftrightarrow>
     (\<exists>n<nbNode m. isOwn m n \<and> rowBegin csr (dofId n) \<le> k \<and> k < rowEnd csr (dofId n))"

text \<open>
  Store \<open>csr'\<close> has the row offsets and array sizes of \<open>csr\<close> and agrees with it on
  every slot outside \<open>S\<close>.
\<close>

definition sameOutside :: "(nat \<Rightarrow> bool) \<Rightarrow> CsrFormat \<Rightarrow> CsrFormat \<Rightarrow> bool" where
  "sameOutside S csr csr' \<longleftrightarrow>
     m_matrix_row csr' = m_matrix_row csr
     \<and> length (m_matrix_column csr') = length (m_matrix_column csr)
     \<and> length (m_matrix_value csr') = length (m_matrix_value csr)
     \<and> (\<forall>k. \<not> S k \<longrightarrow> m_matrix_column csr' ! k = m_matrix_column csr ! k
                      \<and> m_matrix_value csr' ! k = m_matrix_value csr ! k)"

text \<open>A probe writes only inside the span \<open>begin..<end\<close> it is given and keeps the array sizes.\<close>

definition probeFrame ::
  "(nat \<Rightarrow> nat \<Rightarrow> int \<Rightarrow> int list \<Rightarrow> real list \<Rightarrow> real \<Rightarrow> fault + (int list \<times> real list)) \<Rightarrow> bool" where
  "probeFrame probe \<longleftrightarrow>
     (\<forall>b e col cs vs x cs' vs'. probe b e col cs vs x = Inr (cs', vs') \<longrightarrow>
        length cs' = length cs \<and> length vs' = length vs
        \<and> (\<forall>k. \<not> (b \<le> k \<and> k < e) \<longrightarrow> cs' ! k = cs ! k \<and> vs' ! k = vs ! k))"

section \<open>Concrete meshes\<close>

text \<open>A table with a default, for the accessors of the concrete meshes below.\<close>

definition tab :: "'a \<Rightarrow> 'a list \<Rightarrow> nat \<Rightarrow> 'a" where
  "tab d xs n = (if n < length xs then xs ! n else d)"


text \<open>
  The right triangle with nodes \<open>(0,0)\<close>, \<open>(1,0)\<close>, \<open>(0,1)\<close>: one cell, three faces
  \<open>(0,1)\<close>, \<open>(1,2)\<close>, \<open>(0,2)\<close>, every node owned.
\<close>

definition oneTriangle :: Mesh where
  "oneTriangle =
     \<lparr>nbNode = 3, nbFace = 3, nbCell = 1,
      nodeFaces = tab [] [[0, 2], [0, 1], [1, 2]],
      faceNodeId = (\<lambda>f i. tab 0 (tab [] [[0, 1], [1, 2], [0, 2]] f) i),
      cellNodeId = (\<lambda>c i. tab 0 (tab [] [[0, 1, 2]] c) i),
      nodeCells = tab [] [[0], [0], [0]],
      m_node_coord = tab (Real3 0 0 0) [Real3 0 0 0, Real3 1 0 0, Real3 0 1 0],
      isOwn = (\<lambda>n. True)\<rparr>"

text \<open>
  Two triangles sharing the edge between nodes \<open>1\<close> and \<open>2\<close>: four nodes
  \<open>(0,0)\<close>, \<open>(1,0)\<close>, \<open>(0,1)\<close>, \<open>(1,1)\<close>, five faces, cells \<open>(0,1,2)\<close> and
  \<open>(1,3,2)\<close>. \<open>own\<close> says which nodes the partition owns.
\<close>

definition twoTriangles :: "(nat \<Rightarrow> bool) \<Rightarrow> Mesh" where
  "twoTriangles own =
     \<lparr>nbNode = 4, nbFace = 5, nbCell = 2,
      nodeFaces = tab [] [[0, 2], [0, 1, 3], [1, 2, 4], [3, 4]],
      faceNodeId = (\<lambda>f i. tab 0 (tab [] [[0, 1], [1, 2], [0, 2], [1, 3], [2, 3]] f) i),
      cellNodeId = (\<lambda>c i. tab 0 (tab [] [[0, 1, 2], [1, 3, 2]] c) i),
      nodeCells = tab [] [[0], [0, 1], [0, 1], [1]],
      m_node_coord = tab (Real3 0 0 0) [Real3 0 0 0, Real3 1 0 0, Real3 0 1 0, Real3 1 1 0],
      isOwn = own\<rparr>"

text \<open>
  A chain of \<open>F\<close> faces: nodes \<open>0..F\<close> on a line, face \<open>f\<close> joins the nodes \<open>f\<close>
  and \<open>f + 1\<close>, no cell.
\<close>

definition chainMesh :: "nat \<Rightarrow> Mesh" where
  "chainMesh F =
     \<lparr>nbNode = F + 1, nbFace = F, nbCell = 0,
      nodeFaces = (\<lambda>n. (if 0 < n then [n - 1] else []) @ (if n < F then [n] else [])),
      faceNodeId = (\<lambda>f i. if i = 0 then f else f + 1),
      cellNodeId = (\<lambda>c i. 0),
      nodeCells = (\<lambda>n. []),
      m_node_coord = (\<lambda>n. Real3 (real n) 0 0),
      isOwn = (\<lambda>n. True)\<rparr>"

section \<open>Properties\<close>

subsection \<open>Auxiliary facts\<close>

lemma upt_0_3: "[0..<3] = [0, 1, 2]"
  by (simp add: upt_rec)

lemma upt_0_2: "[0..<2] = [0, 1]"
  by (simp add: upt_rec)

subsection \<open>C4: the element stiffness matrix of a three-node cell\<close>


lemma computeElementMatrixTRIA3_entries:
  "computeElementMatrixTRIA3 m cell =
    (let m0 = m_node_coord m (cellNodeId m cell 0);
         m1 = m_node_coord m (cellNodeId m cell 1);
         m2 = m_node_coord m (cellNodeId m cell 2);
         area = computeAreaTriangle3 m cell;
         s = 1 / (2 * area);
         ax = (r3y m1 - r3y m2) * s; ay = (r3x m2 - r3x m1) * s;
         bx = (r3y m2 - r3y m0) * s; by = (r3x m0 - r3x m2) * s;
         cx = (r3y m0 - r3y m1) * s; cy = (r3x m1 - r3x m0) * s
     in [(ax * ax + ay * ay) * area, (ax * bx + ay * by) * area, (ax * cx + ay * cy) * area,
         (bx * ax + by * ay) * area, (bx * bx + by * by) * area, (bx * cx + by * cy) * area,
         (cx * ax + cy * ay) * area, (cx * bx + cy * by) * area, (cx * cx + cy * cy) * area])"
  by (simp add: computeElementMatrixTRIA3_def Let_def multInPlace_def matrixMultiplication_def
      matrixTranspose_def fm_at_def upt_0_3 upt_0_2)





text \<open>
  The device kernel \<open>_computeElementMatrixTRIA3GPU\<close> computes the same nine entries as
  \<open>_computeElementMatrixTRIA3\<close>.
\<close>

lemma computeElementMatrixTRIA3GPU_eq:
  "computeElementMatrixTRIA3GPU m c = computeElementMatrixTRIA3 m c"
  by (simp add: computeElementMatrixTRIA3GPU_def computeElementMatrixTRIA3_entries Let_def
      computeAreaTriangle3_def)







subsection \<open>C1: the coordinates inserted by the sequential CSR builder\<close>

text \<open>
  The coordinates each sequential builder inserts, on any mesh: the CSR builder pairs the
  node with end \<open>1\<close> of every incident face, the COO builder with the end of the face
  that is not the node.
\<close>

lemma buildMatrixCsr_coordinates:
  "SetCoordinates r c \<in> set (buildMatrixCsr m) \<longleftrightarrow>
     r < nbNode m \<and> (c = r \<or> (\<exists>f \<in> set (nodeFaces m r). c = faceNodeId m f 1))"
  by (auto simp: buildMatrixCsr_def Let_def allNodes_def dofId_def)

lemma buildMatrixGPU_coordinates:
  "SetCoordinates r c \<in> set (buildMatrixGPU m) \<longleftrightarrow>
     r < nbNode m \<and> (c = r \<or> (\<exists>f \<in> set (nodeFaces m r).
        c = (if faceNodeId m f 0 = r then faceNodeId m f 1 else faceNodeId m f 0)))"
  by (auto simp: buildMatrixGPU_def Let_def allNodes_def dofId_def split: if_splits)

text \<open>
  C1 (evaluation at the one-triangle mesh). \<open>_buildMatrixCsr\<close> takes the column of
  every face entry from \<open>face.nodeId(1)\<close>. Face \<open>0\<close> has end nodes \<open>0\<close> and \<open>1\<close>
  and is incident to node \<open>1\<close>; for node \<open>1\<close> the builder inserts \<open>(1, 1)\<close> a second
  time and never \<open>(1, 0)\<close>, and row \<open>2\<close> receives only \<open>(2, 2)\<close>. The COO builder
  \<open>_buildMatrixGPU\<close> inserts the other end of each face.
\<close>

theorem buildMatrixCsr_oneTriangle:
  "buildMatrixCsr oneTriangle =
     [Initialize 9 3,
      SetCoordinates 0 0, SetCoordinates 0 1, SetCoordinates 0 2,
      SetCoordinates 1 1, SetCoordinates 1 1, SetCoordinates 1 2,
      SetCoordinates 2 2, SetCoordinates 2 2, SetCoordinates 2 2]
   \<and> buildMatrixGPU oneTriangle =
     [InitializeCoo 9,
      SetCoordinates 0 0, SetCoordinates 0 1, SetCoordinates 0 2,
      SetCoordinates 1 1, SetCoordinates 1 0, SetCoordinates 1 2,
      SetCoordinates 2 2, SetCoordinates 2 1, SetCoordinates 2 0]
   \<and> faceNodeId oneTriangle 0 0 = 0 \<and> faceNodeId oneTriangle 0 1 = 1
   \<and> nodeFaces oneTriangle 1 = [0, 1]
   \<and> SetCoordinates 1 0 \<notin> set (buildMatrixCsr oneTriangle)"
  by code_simp

subsection \<open>C8: the builders on a mesh without nodes\<close>


text \<open>
  With one row-offset entry per node and at least one node, the host builder computes the
  store of the scan builder, here on the two-triangles mesh.
\<close>

lemma buildMatrixBuildLessCsr_twoTriangles:
  "buildMatrixBuildLessCsr (replicate 4 0) (twoTriangles (\<lambda>n. True))
     = Inr (buildMatrixGpuBuildLessCsr (twoTriangles (\<lambda>n. True)))"
  by code_simp




subsection \<open>C6: a probe that runs off the end of the row\<close>

lemma addValueToGlobalMatrixTria3Gpu_exhausted:
  "e \<le> length cs \<Longrightarrow> (\<forall>k. b \<le> k \<and> k < e \<longrightarrow> cs ! k \<noteq> col \<and> cs ! k \<noteq> - 1)
   \<Longrightarrow> addValueToGlobalMatrixTria3Gpu b e col cs vs x = Inr (cs, vs)"
proof (induction b e col cs vs x rule: addValueToGlobalMatrixTria3Gpu.induct)
  case (1 b e col cs vs x)
  show ?case
  proof (cases "b < e")
    case True
    with "1.prems" have a: "\<not> length cs \<le> b" "cs ! b \<noteq> - 1" "cs ! b \<noteq> col"
      by auto
    have "addValueToGlobalMatrixTria3Gpu (b + 1) e col cs vs x = Inr (cs, vs)"
      using "1.IH" True a "1.prems" by auto
    with True a show ?thesis
      by (subst addValueToGlobalMatrixTria3Gpu.simps) simp
  next
    case False
    then show ?thesis by (subst addValueToGlobalMatrixTria3Gpu.simps) simp
  qed
qed

lemma csrGpuProbe_exhausted:
  "e \<le> length cs \<Longrightarrow> (\<forall>k. b \<le> k \<and> k < e \<longrightarrow> cs ! k \<noteq> col \<and> cs ! k \<noteq> - 1)
   \<Longrightarrow> csrGpuProbe b e col cs vs x = Inr (cs, vs)"
proof (induction b e col cs vs x rule: csrGpuProbe.induct)
  case (1 b e col cs vs x)
  show ?case
  proof (cases "b < e")
    case True
    with "1.prems" have a: "\<not> length cs \<le> b" "cs ! b \<noteq> - 1" "cs ! b \<noteq> col"
      by auto
    have "csrGpuProbe (b + 1) e col cs vs x = Inr (cs, vs)"
      using "1.IH" True a "1.prems" by auto
    with True a show ?thesis
      by (subst csrGpuProbe.simps) simp
  next
    case False
    then show ?thesis by (subst csrGpuProbe.simps) simp
  qed
qed

text \<open>
  C6 as stated fails: the row \<open>0\<close> of the store below has one slot, held by column \<open>3\<close>.
  Scattering a contribution for column \<open>5\<close> into it probes the slot, finds neither
  column \<open>5\<close> nor the sentinel, reaches the end of the row, and returns normally with the
  store unchanged, in both device paths. No fault is raised.
\<close>

theorem scatterAdd_full_row_no_fault:
  "m_matrix_column \<lparr>m_matrix_row = [0], m_matrix_column = [3], m_matrix_value = [1]\<rparr> ! 0 \<noteq> 5
   \<and> m_matrix_column \<lparr>m_matrix_row = [0], m_matrix_column = [3], m_matrix_value = [1]\<rparr> ! 0 \<noteq> - 1
   \<and> rowBegin \<lparr>m_matrix_row = [0], m_matrix_column = [3], m_matrix_value = [1]\<rparr> 0 = 0
   \<and> rowEnd \<lparr>m_matrix_row = [0], m_matrix_column = [3], m_matrix_value = [1]\<rparr> 0 = 1
   \<and> scatterAdd addValueToGlobalMatrixTria3Gpu 0 5 2
        \<lparr>m_matrix_row = [0], m_matrix_column = [3], m_matrix_value = [1]\<rparr>
       = Inr \<lparr>m_matrix_row = [0], m_matrix_column = [3], m_matrix_value = [1]\<rparr>
   \<and> scatterAdd csrGpuProbe 0 5 2
        \<lparr>m_matrix_row = [0], m_matrix_column = [3], m_matrix_value = [1]\<rparr>
       = Inr \<lparr>m_matrix_row = [0], m_matrix_column = [3], m_matrix_value = [1]\<rparr>"
  by code_simp

text \<open>
  C6 as amended. When the probe of a scatter-add reaches the end of the owning row's span
  (the next row's offset, or the total capacity for the last row) without finding the
  column or a sentinel slot, the scatter-add returns normally and leaves the store
  unchanged: the contribution is dropped and no fault is raised. This holds for the probe
  of the build-less path and for the probe of the device CSR path.
\<close>

theorem scatterAdd_exhausted_row_drops:
  assumes "dofId node1 < length (m_matrix_row csr)"
    and "rowEnd csr (dofId node1) \<le> length (m_matrix_column csr)"
    and "\<forall>k. rowBegin csr (dofId node1) \<le> k \<and> k < rowEnd csr (dofId node1)
            \<longrightarrow> m_matrix_column csr ! k \<noteq> int (dofId node2) \<and> m_matrix_column csr ! k \<noteq> - 1"
  shows "scatterAdd addValueToGlobalMatrixTria3Gpu node1 node2 v csr = Inr csr
       \<and> scatterAdd csrGpuProbe node1 node2 v csr = Inr csr"
  using assms addValueToGlobalMatrixTria3Gpu_exhausted [OF assms(2,3)]
    csrGpuProbe_exhausted [OF assms(2,3)]
  by (simp add: scatterAdd_def Let_def)

theorem scatterAdd_exhausted_row_drops_witness:
  "dofId 0 < length (m_matrix_row \<lparr>m_matrix_row = [0, 2], m_matrix_column = [0, 1, 1, - 1], m_matrix_value = [4, 5, 6, 0]\<rparr>)
   \<and> rowEnd \<lparr>m_matrix_row = [0, 2], m_matrix_column = [0, 1, 1, - 1], m_matrix_value = [4, 5, 6, 0]\<rparr> (dofId 0)
       \<le> length (m_matrix_column \<lparr>m_matrix_row = [0, 2], m_matrix_column = [0, 1, 1, - 1], m_matrix_value = [4, 5, 6, 0]\<rparr>)
   \<and> scatterAdd addValueToGlobalMatrixTria3Gpu 0 2 7
        \<lparr>m_matrix_row = [0, 2], m_matrix_column = [0, 1, 1, - 1], m_matrix_value = [4, 5, 6, 0]\<rparr>
       = Inr \<lparr>m_matrix_row = [0, 2], m_matrix_column = [0, 1, 1, - 1], m_matrix_value = [4, 5, 6, 0]\<rparr>
   \<and> scatterAdd csrGpuProbe 0 2 7
        \<lparr>m_matrix_row = [0, 2], m_matrix_column = [0, 1, 1, - 1], m_matrix_value = [4, 5, 6, 0]\<rparr>
       = Inr \<lparr>m_matrix_row = [0, 2], m_matrix_column = [0, 1, 1, - 1], m_matrix_value = [4, 5, 6, 0]\<rparr>"
proof -
  let ?csr = "\<lparr>m_matrix_row = [0, 2], m_matrix_column = [0, 1, 1, - 1], m_matrix_value = [4, 5, 6, 0]\<rparr>"
  have h1: "dofId 0 < length (m_matrix_row ?csr)"
    by (simp add: dofId_def)
  have h2: "rowEnd ?csr (dofId 0) \<le> length (m_matrix_column ?csr)"
    by (simp add: dofId_def rowEnd_def)
  have h3: "\<forall>k. rowBegin ?csr (dofId 0) \<le> k \<and> k < rowEnd ?csr (dofId 0)
            \<longrightarrow> m_matrix_column ?csr ! k \<noteq> int (dofId 2) \<and> m_matrix_column ?csr ! k \<noteq> - 1"
  proof (intro allI impI)
    fix k assume "rowBegin ?csr (dofId 0) \<le> k \<and> k < rowEnd ?csr (dofId 0)"
    then have "k = 0 \<or> k = 1" by (auto simp add: dofId_def rowEnd_def rowBegin_def)
    then show "m_matrix_column ?csr ! k \<noteq> int (dofId 2) \<and> m_matrix_column ?csr ! k \<noteq> - 1"
      by (auto simp add: dofId_def)
  qed
  from scatterAdd_exhausted_row_drops [OF h1 h2 h3, of 7] h1 h2 show ?thesis by blast
qed

subsection \<open>C9: Penalty sets the diagonal, WeakPenalty adds to it\<close>

lemma enforce_set_fold:
  assumes "\<forall>n \<in> set xs. n < length rhs"
  shows "\<exists>K' rhs'. foldF (enforceDirichletNode dense_matrixSetValue P dir u) xs (K, rhs) = Inr (K', rhs')
           \<and> length rhs' = length rhs
           \<and> (\<forall>n. (n \<in> set xs \<and> dir n \<longrightarrow> K' n n = P \<and> rhs' ! n = P * u n)
                  \<and> (\<not> (n \<in> set xs \<and> dir n) \<longrightarrow> K' n n = K n n \<and> rhs' ! n = rhs ! n))"
  using assms
proof (induction xs arbitrary: K rhs)
  case Nil
  then show ?case by simp
next
  case (Cons x xs)
  show ?case
  proof (cases "dir x")
    case False
    then have step: "enforceDirichletNode dense_matrixSetValue P dir u x (K, rhs) = Inr (K, rhs)"
      by (simp add: enforceDirichletNode_def)
    from Cons.IH [of rhs K] Cons.prems obtain K' rhs' where
      r: "foldF (enforceDirichletNode dense_matrixSetValue P dir u) xs (K, rhs) = Inr (K', rhs')"
         "length rhs' = length rhs"
         "\<forall>n. (n \<in> set xs \<and> dir n \<longrightarrow> K' n n = P \<and> rhs' ! n = P * u n)
                  \<and> (\<not> (n \<in> set xs \<and> dir n) \<longrightarrow> K' n n = K n n \<and> rhs' ! n = rhs ! n)"
      by auto
    show ?thesis using step r False by auto
  next
    case True
    let ?K1 = "K(x := (K x)(x := P))"
    let ?rhs1 = "rhs[x := P * u x]"
    from Cons.prems have x: "x < length rhs" by simp
    have step: "enforceDirichletNode dense_matrixSetValue P dir u x (K, rhs) = Inr (?K1, ?rhs1)"
      using True x by (simp add: enforceDirichletNode_def dense_matrixSetValue_def dofId_def Let_def)
    have prem: "\<forall>n \<in> set xs. n < length ?rhs1" using Cons.prems by simp
    from Cons.IH [OF prem, of ?K1] obtain K' rhs' where
      r: "foldF (enforceDirichletNode dense_matrixSetValue P dir u) xs (?K1, ?rhs1) = Inr (K', rhs')"
         "length rhs' = length ?rhs1"
         "\<forall>n. (n \<in> set xs \<and> dir n \<longrightarrow> K' n n = P \<and> rhs' ! n = P * u n)
                  \<and> (\<not> (n \<in> set xs \<and> dir n) \<longrightarrow> K' n n = ?K1 n n \<and> rhs' ! n = ?rhs1 ! n)"
      by blast
    have "(n \<in> set (x # xs) \<and> dir n \<longrightarrow> K' n n = P \<and> rhs' ! n = P * u n)
                  \<and> (\<not> (n \<in> set (x # xs) \<and> dir n) \<longrightarrow> K' n n = K n n \<and> rhs' ! n = rhs ! n)" for n
      using spec [OF r(3), of n] x True
      by (cases "n = x"; cases "n \<in> set xs") (simp_all add: nth_list_update)
    then have "\<forall>n. (n \<in> set (x # xs) \<and> dir n \<longrightarrow> K' n n = P \<and> rhs' ! n = P * u n)
                  \<and> (\<not> (n \<in> set (x # xs) \<and> dir n) \<longrightarrow> K' n n = K n n \<and> rhs' ! n = rhs ! n)"
      by blast
    then show ?thesis using step r(1,2) by auto
  qed
qed

lemma enforce_add_fold:
  assumes "\<forall>n \<in> set xs. n < length rhs" "distinct xs"
  shows "\<exists>K' rhs'. foldF (enforceDirichletNode dense_matrixAddValue P dir u) xs (K, rhs) = Inr (K', rhs')
           \<and> length rhs' = length rhs
           \<and> (\<forall>n. (n \<in> set xs \<and> dir n \<longrightarrow> K' n n = K n n + P \<and> rhs' ! n = P * u n)
                  \<and> (\<not> (n \<in> set xs \<and> dir n) \<longrightarrow> K' n n = K n n \<and> rhs' ! n = rhs ! n))"
  using assms
proof (induction xs arbitrary: K rhs)
  case Nil
  then show ?case by simp
next
  case (Cons x xs)
  show ?case
  proof (cases "dir x")
    case False
    then have step: "enforceDirichletNode dense_matrixAddValue P dir u x (K, rhs) = Inr (K, rhs)"
      by (simp add: enforceDirichletNode_def)
    from Cons.IH [of rhs K] Cons.prems obtain K' rhs' where
      r: "foldF (enforceDirichletNode dense_matrixAddValue P dir u) xs (K, rhs) = Inr (K', rhs')"
         "length rhs' = length rhs"
         "\<forall>n. (n \<in> set xs \<and> dir n \<longrightarrow> K' n n = K n n + P \<and> rhs' ! n = P * u n)
                  \<and> (\<not> (n \<in> set xs \<and> dir n) \<longrightarrow> K' n n = K n n \<and> rhs' ! n = rhs ! n)"
      by auto
    show ?thesis using step r False by auto
  next
    case True
    let ?K1 = "K(x := (K x)(x := K x x + P))"
    let ?rhs1 = "rhs[x := P * u x]"
    from Cons.prems have x: "x < length rhs" "x \<notin> set xs" by simp_all
    have step: "enforceDirichletNode dense_matrixAddValue P dir u x (K, rhs) = Inr (?K1, ?rhs1)"
      using True x by (simp add: enforceDirichletNode_def dense_matrixAddValue_def dofId_def Let_def)
    have prem: "\<forall>n \<in> set xs. n < length ?rhs1" "distinct xs" using Cons.prems by simp_all
    from Cons.IH [OF prem, of ?K1] obtain K' rhs' where
      r: "foldF (enforceDirichletNode dense_matrixAddValue P dir u) xs (?K1, ?rhs1) = Inr (K', rhs')"
         "length rhs' = length ?rhs1"
         "\<forall>n. (n \<in> set xs \<and> dir n \<longrightarrow> K' n n = ?K1 n n + P \<and> rhs' ! n = P * u n)
                  \<and> (\<not> (n \<in> set xs \<and> dir n) \<longrightarrow> K' n n = ?K1 n n \<and> rhs' ! n = ?rhs1 ! n)"
      by blast
    have "(n \<in> set (x # xs) \<and> dir n \<longrightarrow> K' n n = K n n + P \<and> rhs' ! n = P * u n)
                  \<and> (\<not> (n \<in> set (x # xs) \<and> dir n) \<longrightarrow> K' n n = K n n \<and> rhs' ! n = rhs ! n)" for n
      using spec [OF r(3), of n] x True
      by (cases "n = x"; cases "n \<in> set xs") (simp_all add: nth_list_update)
    then have "\<forall>n. (n \<in> set (x # xs) \<and> dir n \<longrightarrow> K' n n = K n n + P \<and> rhs' ! n = P * u n)
                  \<and> (\<not> (n \<in> set (x # xs) \<and> dir n) \<longrightarrow> K' n n = K n n \<and> rhs' ! n = rhs ! n)"
      by blast
    then show ?thesis using step r(1,2) by auto
  qed
qed

lemma ownNodes_distinct_set:
  "distinct (ownNodes m) \<and> set (ownNodes m) = {n. n < nbNode m \<and> isOwn m n}"
  by (auto simp: ownNodes_def allNodes_def)

text \<open>
  C9. Let node \<open>n\<close> be owned and carry a Dirichlet condition, and let \<open>K\<close> be the
  matrix assembled so far. With the method \<open>Penalty\<close> the enforcement stage of
  \<open>_assembleLinearOperator\<close> succeeds and leaves the diagonal entry of the node's row
  equal to \<open>P\<close>, whatever \<open>K\<close> held there; with \<open>WeakPenalty\<close> it leaves the
  previous diagonal entry plus \<open>P\<close>. In both cases the right-hand-side entry of the node
  is \<open>P\<close> times the prescribed value \<open>m_u n\<close>.
\<close>

theorem dirichlet_penalty_set_weak_add:
  assumes "n < nbNode m" and "isOwn m n" and "m_u_dirichlet n"
  shows "(\<exists>K' rhs'.
            assembleLinearOperator_enforceDirichlet dense_matrixSetValue dense_matrixAddValue
              ''Penalty'' P m m_u_dirichlet m_u K = Inr (K', rhs')
            \<and> K' (dofId n) (dofId n) = P
            \<and> rhs' ! dofId n = P * m_u n)
       \<and> (\<exists>K' rhs'.
            assembleLinearOperator_enforceDirichlet dense_matrixSetValue dense_matrixAddValue
              ''WeakPenalty'' P m m_u_dirichlet m_u K = Inr (K', rhs')
            \<and> K' (dofId n) (dofId n) = K (dofId n) (dofId n) + P
            \<and> rhs' ! dofId n = P * m_u n)"
proof -
  let ?rhs = "replicate (nbNode m) (0::real)"
  have inrange: "\<forall>k \<in> set (ownNodes m). k < length ?rhs"
    using ownNodes_distinct_set [of m] by simp
  have dist: "distinct (ownNodes m)"
    using ownNodes_distinct_set [of m] by simp
  have mem: "n \<in> set (ownNodes m) \<and> m_u_dirichlet n"
    using assms ownNodes_distinct_set [of m] by simp
  from enforce_set_fold [OF inrange, of P m_u_dirichlet m_u K] obtain K1 rhs1 where
    s: "foldF (enforceDirichletNode dense_matrixSetValue P m_u_dirichlet m_u) (ownNodes m) (K, ?rhs)
          = Inr (K1, rhs1)"
       "\<forall>k. (k \<in> set (ownNodes m) \<and> m_u_dirichlet k \<longrightarrow> K1 k k = P \<and> rhs1 ! k = P * m_u k)
          \<and> (\<not> (k \<in> set (ownNodes m) \<and> m_u_dirichlet k) \<longrightarrow> K1 k k = K k k \<and> rhs1 ! k = ?rhs ! k)"
    by blast
  from enforce_add_fold [OF inrange dist, of P m_u_dirichlet m_u K] obtain K2 rhs2 where
    a: "foldF (enforceDirichletNode dense_matrixAddValue P m_u_dirichlet m_u) (ownNodes m) (K, ?rhs)
          = Inr (K2, rhs2)"
       "\<forall>k. (k \<in> set (ownNodes m) \<and> m_u_dirichlet k \<longrightarrow> K2 k k = K k k + P \<and> rhs2 ! k = P * m_u k)
          \<and> (\<not> (k \<in> set (ownNodes m) \<and> m_u_dirichlet k) \<longrightarrow> K2 k k = K k k \<and> rhs2 ! k = ?rhs ! k)"
    by blast
  have set_part: "K1 n n = P \<and> rhs1 ! n = P * m_u n"
    using spec [OF s(2), of n] mem by blast
  have add_part: "K2 n n = K n n + P \<and> rhs2 ! n = P * m_u n"
    using spec [OF a(2), of n] mem by blast
  have "assembleLinearOperator_enforceDirichlet dense_matrixSetValue dense_matrixAddValue
              ''Penalty'' P m m_u_dirichlet m_u K = Inr (K1, rhs1)"
    using s(1) by (simp add: assembleLinearOperator_enforceDirichlet_def)
  moreover have "assembleLinearOperator_enforceDirichlet dense_matrixSetValue dense_matrixAddValue
              ''WeakPenalty'' P m m_u_dirichlet m_u K = Inr (K2, rhs2)"
    using a(1) by (simp add: assembleLinearOperator_enforceDirichlet_def)
  ultimately show ?thesis
    using set_part add_part by (simp add: dofId_def)
qed

theorem dirichlet_penalty_set_weak_add_witness:
  "1 < nbNode oneTriangle \<and> isOwn oneTriangle 1 \<and> (\<lambda>k. k = 1) (1::nat)
   \<and> (\<exists>K' rhs'.
        assembleLinearOperator_enforceDirichlet dense_matrixSetValue dense_matrixAddValue
          ''Penalty'' 1000 oneTriangle (\<lambda>k. k = 1) (\<lambda>k. 3) (\<lambda>r c. 7) = Inr (K', rhs')
        \<and> K' (dofId 1) (dofId 1) = 1000
        \<and> rhs' ! dofId 1 = 1000 * 3)
   \<and> (\<exists>K' rhs'.
        assembleLinearOperator_enforceDirichlet dense_matrixSetValue dense_matrixAddValue
          ''WeakPenalty'' 1000 oneTriangle (\<lambda>k. k = 1) (\<lambda>k. 3) (\<lambda>r c. 7) = Inr (K', rhs')
        \<and> K' (dofId 1) (dofId 1) = 7 + 1000
        \<and> rhs' ! dofId 1 = 1000 * 3)"
proof -
  have h1: "1 < nbNode oneTriangle" by (simp add: oneTriangle_def)
  have h2: "isOwn oneTriangle 1" by (simp add: oneTriangle_def)
  from dirichlet_penalty_set_weak_add
         [where n = 1 and m = oneTriangle and m_u_dirichlet = "\<lambda>k. k = 1"
            and P = 1000 and m_u = "\<lambda>k. 3" and K = "\<lambda>r c. 7"] h1 h2
  show ?thesis by simp
qed

subsection \<open>C3: reserved row sizes and total capacity\<close>

lemma fold_update_upt:
  "k \<le> length xs \<Longrightarrow> fold (\<lambda>i t. t[i := g i]) [0..<k] xs = map g [0..<k] @ drop k xs"
proof (induction k)
  case 0
  then show ?case by simp
next
  case (Suc k)
  then have k: "k < length xs" by simp
  have "fold (\<lambda>i t. t[i := g i]) [0..<Suc k] xs = (map g [0..<k] @ drop k xs)[k := g k]"
    using Suc by simp
  also have "\<dots> = map g [0..<k] @ (drop k xs)[0 := g k]"
    by (simp add: list_update_append)
  also have "(drop k xs)[0 := g k] = g k # drop (Suc k) xs"
    using k by (simp add: Cons_nth_drop_Suc [symmetric])
  finally show ?case by simp
qed

lemma tmp_row_eq:
  "fold (\<lambda>inode t. t[dofId inode := Suc (length (nodeFaces m inode))]) (allNodes m) (replicate (nbNode m) 0)
   = map (\<lambda>n. Suc (length (nodeFaces m n))) [0..<nbNode m]"
  using fold_update_upt [of "nbNode m" "replicate (nbNode m) 0" "\<lambda>n. Suc (length (nodeFaces m n))"]
  by (simp add: allNodes_def dofId_def)

lemma length_exclusiveSum_from: "length (exclusiveSum_from a xs) = length xs"
  by (induction xs arbitrary: a) simp_all

lemma nth_exclusiveSum_from:
  "i < length xs \<Longrightarrow> exclusiveSum_from a xs ! i = a + sum_list (take i xs)"
proof (induction xs arbitrary: a i)
  case Nil
  then show ?case by simp
next
  case (Cons x xs)
  then show ?case by (cases i) simp_all
qed

lemma build_rows:
  "m_matrix_row (buildMatrixGpuBuildLessCsr m) =
     exclusiveSum (map (\<lambda>n. Suc (length (nodeFaces m n))) [0..<nbNode m])"
  by (simp add: buildMatrixGpuBuildLessCsr_def Let_def tmp_row_eq csr_initialize_def)

lemma build_row_length:
  "length (m_matrix_row (buildMatrixGpuBuildLessCsr m)) = nbNode m"
  by (simp add: build_rows exclusiveSum_def length_exclusiveSum_from)

text \<open>Without overflow the \<open>Int32\<close> capacity is the number \<open>2 * |faces| + |nodes|\<close>.\<close>

lemma int32_id: "0 \<le> x \<Longrightarrow> x < 2147483648 \<Longrightarrow> int32 x = x"
  by (simp add: int32_def)

lemma nnz_exact:
  assumes "2 * nbFace m + nbNode m < 2147483648"
  shows "nnz m = int (2 * nbFace m + nbNode m)"
proof -
  have "int32 (int (nbFace m) * 2) = int (nbFace m) * 2"
    using assms by (intro int32_id) simp_all
  moreover have "int32 (int (nbFace m) * 2 + int (nbNode m)) = int (nbFace m) * 2 + int (nbNode m)"
    using assms by (intro int32_id) simp_all
  ultimately show ?thesis by (simp add: nnz_def)
qed

lemma build_lengths:
  assumes "2 * nbFace m + nbNode m < 2147483648"
  shows "length (m_matrix_column (buildMatrixGpuBuildLessCsr m)) = 2 * nbFace m + nbNode m
       \<and> length (m_matrix_value (buildMatrixGpuBuildLessCsr m)) = 2 * nbFace m + nbNode m"
  using nnz_exact [OF assms]
  by (simp add: buildMatrixGpuBuildLessCsr_def Let_def csr_initialize_def)

lemma build_row_nth:
  assumes n: "n < nbNode m"
  shows "m_matrix_row (buildMatrixGpuBuildLessCsr m) ! n = (\<Sum>i<n. Suc (length (nodeFaces m i)))"
proof -
  have "take n (map (\<lambda>n. Suc (length (nodeFaces m n))) [0..<nbNode m])
          = map (\<lambda>n. Suc (length (nodeFaces m n))) [0..<n]"
    using n by (simp add: take_map)
  then show ?thesis using n
    by (simp add: build_rows exclusiveSum_def nth_exclusiveSum_from atLeast0LessThan
            interv_sum_list_conv_sum_set_nat)
qed

lemma build_row_mono:
  assumes "i \<le> j" "j < nbNode m"
  shows "m_matrix_row (buildMatrixGpuBuildLessCsr m) ! i \<le> m_matrix_row (buildMatrixGpuBuildLessCsr m) ! j"
proof -
  have "(\<Sum>k<i. Suc (length (nodeFaces m k))) \<le> (\<Sum>k<j. Suc (length (nodeFaces m k)))"
    using assms by (intro sum_mono2) auto
  then show ?thesis using assms by (simp add: build_row_nth)
qed

lemma build_row_Suc:
  assumes "Suc n < nbNode m"
  shows "m_matrix_row (buildMatrixGpuBuildLessCsr m) ! Suc n
           = m_matrix_row (buildMatrixGpuBuildLessCsr m) ! n + Suc (length (nodeFaces m n))"
  using assms by (simp add: build_row_nth)

lemma facesOfNode_card:
  "length (facesOfNode m n) = card {f. f < nbFace m \<and> (faceNodeId m f 0 = n \<or> faceNodeId m f 1 = n)}"
proof -
  have "distinct (facesOfNode m n)" by (simp add: facesOfNode_def)
  then have "length (facesOfNode m n) = card (set (facesOfNode m n))"
    by (simp add: distinct_card)
  also have "set (facesOfNode m n) = {f. f < nbFace m \<and> (faceNodeId m f 0 = n \<or> faceNodeId m f 1 = n)}"
    by (auto simp: facesOfNode_def)
  finally show ?thesis .
qed

lemma degree_nodeFaces:
  assumes "faceConnectivity m" "n < nbNode m"
  shows "length (nodeFaces m n) = length (facesOfNode m n)"
proof -
  from assms have nodes: "distinct (nodeFaces m n)" "set (nodeFaces m n) = set (facesOfNode m n)"
    by (auto simp: faceConnectivity_def list_all_iff)
  have "card (set (nodeFaces m n)) = length (nodeFaces m n)"
    using nodes(1) distinct_card by blast
  then have "length (nodeFaces m n) = card (set (facesOfNode m n))" using nodes(2) by simp
  also have "\<dots> = length (facesOfNode m n)"
    by (rule distinct_card) (simp add: facesOfNode_def)
  finally show ?thesis .
qed

lemma handshake:
  assumes "faceConnectivity m"
  shows "(\<Sum>n<nbNode m. length (nodeFaces m n)) = 2 * nbFace m"
proof -
  let ?inc = "\<lambda>f n. faceNodeId m f 0 = n \<or> faceNodeId m f 1 = n"
  from assms have faces: "\<And>f. f < nbFace m \<Longrightarrow>
      faceNodeId m f 0 < nbNode m \<and> faceNodeId m f 1 < nbNode m \<and> faceNodeId m f 0 \<noteq> faceNodeId m f 1"
    by (auto simp: faceConnectivity_def list_all_iff)
  have len: "length (nodeFaces m n) = card {f. f < nbFace m \<and> ?inc f n}" if "n < nbNode m" for n
    using degree_nodeFaces [OF assms that] by (simp add: facesOfNode_card)
  have "(\<Sum>n<nbNode m. length (nodeFaces m n)) = (\<Sum>n<nbNode m. card {f. f < nbFace m \<and> ?inc f n})"
    using len by simp
  also have "\<dots> = (\<Sum>n<nbNode m. \<Sum>f<nbFace m. if ?inc f n then 1 else 0)"
  proof (rule sum.cong [OF refl])
    fix n
    have "{f. f < nbFace m \<and> ?inc f n} = {f \<in> {..<nbFace m}. ?inc f n}" by auto
    then show "card {f. f < nbFace m \<and> ?inc f n} = (\<Sum>f<nbFace m. if ?inc f n then 1 else 0)"
      by (simp add: sum.If_cases Int_def)
  qed
  also have "\<dots> = (\<Sum>f<nbFace m. \<Sum>n<nbNode m. if ?inc f n then 1 else 0)"
    by (rule sum.swap)
  also have "\<dots> = (\<Sum>f<nbFace m. 2)"
  proof (rule sum.cong [OF refl])
    fix f assume "f \<in> {..<nbFace m}"
    then have f: "faceNodeId m f 0 < nbNode m" "faceNodeId m f 1 < nbNode m"
        "faceNodeId m f 0 \<noteq> faceNodeId m f 1"
      using faces [of f] by auto
    have "{n \<in> {..<nbNode m}. ?inc f n} = {faceNodeId m f 0, faceNodeId m f 1}"
      using f by auto
    then have "card {n \<in> {..<nbNode m}. ?inc f n} = 2" using f by simp
    then show "(\<Sum>n<nbNode m. if ?inc f n then 1 else 0) = (2::nat)"
      by (simp add: sum.If_cases Int_def)
  qed
  also have "\<dots> = 2 * nbFace m" by simp
  finally show ?thesis .
qed

lemma rowSize_build:
  assumes "faceConnectivity m" "2 * nbFace m + nbNode m < 2147483648" "n < nbNode m"
  shows "rowSize (buildMatrixGpuBuildLessCsr m) n = length (nodeFaces m n) + 1"
proof (cases "Suc n = nbNode m")
  case False
  with assms have "Suc n < nbNode m" by simp
  then show ?thesis using False
    by (simp add: rowSize_def rowEnd_def rowBegin_def build_row_length build_row_Suc)
next
  case True
  have "(\<Sum>i<nbNode m. Suc (length (nodeFaces m i))) = (\<Sum>i<nbNode m. length (nodeFaces m i)) + nbNode m"
    by (simp add: sum_Suc)
  then have "(\<Sum>i<nbNode m. Suc (length (nodeFaces m i))) = 2 * nbFace m + nbNode m"
    using handshake [OF assms(1)] by simp
  then have "(\<Sum>i<n. Suc (length (nodeFaces m i))) + Suc (length (nodeFaces m n)) = 2 * nbFace m + nbNode m"
    using True [symmetric] by simp
  then show ?thesis using True assms(3) build_lengths [OF assms(2)]
    by (simp add: rowSize_def rowEnd_def rowBegin_def build_row_length build_row_nth)
qed

text \<open>
  The coordinates \<open>_buildMatrixCsr\<close> inserts for the row of a node: the diagonal, then
  one per incident face.
\<close>

lemma insertedColumns_simps:
  "insertedColumns [] r = []"
  "insertedColumns (SetCoordinates a c # cs) r = (if a = r then [c] else []) @ insertedColumns cs r"
  "insertedColumns (Initialize x y # cs) r = insertedColumns cs r"
  "insertedColumns (xs @ ys) r = insertedColumns xs r @ insertedColumns ys r"
  by (simp_all add: insertedColumns_def)

lemma insertedColumns_faces:
  "insertedColumns (map (\<lambda>face. SetCoordinates node (g face)) fs) r = (if node = r then map g fs else [])"
  by (induction fs) (simp_all add: insertedColumns_simps)

lemma insertedColumns_concat:
  "insertedColumns (concat (map h ns)) r = concat (map (\<lambda>k. insertedColumns (h k) r) ns)"
  by (induction ns) (simp_all add: insertedColumns_simps)

lemma concat_pick:
  "concat (map (\<lambda>k. if k = n then xs else []) [0..<N]) = (if n < N then xs else [])"
  by (induction N) auto

lemma insertedColumns_buildMatrixCsr:
  assumes "n < nbNode m"
  shows "insertedColumns (buildMatrixCsr m) n = n # map (\<lambda>f. faceNodeId m f 1) (nodeFaces m n)"
proof -
  have "insertedColumns (buildMatrixCsr m) n
        = concat (map (\<lambda>k. if k = n then n # map (\<lambda>f. faceNodeId m f 1) (nodeFaces m n) else [])
                       [0..<nbNode m])"
    by (simp add: buildMatrixCsr_def allNodes_def dofId_def Let_def insertedColumns_simps
        insertedColumns_concat insertedColumns_faces cong: if_cong)
       (rule arg_cong [where f = concat], rule map_cong, simp_all)
  then show ?thesis using assms by (simp add: concat_pick)
qed

lemma twoTriangles_rowSizes:
  "map (rowSize (buildMatrixGpuBuildLessCsr (twoTriangles (\<lambda>n. True))))
       (allNodes (twoTriangles (\<lambda>n. True))) = [3, 4, 4, 3]"
  by code_simp

lemma twoTriangles_inserted:
  "map (\<lambda>n. length (insertedColumns (buildMatrixCsr (twoTriangles (\<lambda>n. True))) n))
       (allNodes (twoTriangles (\<lambda>n. True))) = [3, 4, 4, 3]"
  by code_simp

text \<open>The chain of faces is well formed, whatever its length.\<close>

lemma chainMesh_faceConnectivity: "faceConnectivity (chainMesh F)"
  by (auto simp: faceConnectivity_def chainMesh_def list_all_iff facesOfNode_def)

lemma chainMesh_nnz: "nnz (chainMesh 1073741824) = - 1073741823"
  by (simp add: nnz_def chainMesh_def int32_def)

text \<open>
  C3 as stated fails in two places. On its concrete scenario, the two triangles sharing an
  edge, the builders reserve, in node order, \<open>3, 4, 4, 3\<close> slots: each of the two nodes
  of the shared edge has three incident faces and so four slots. Sorted, the sizes are
  \<open>3, 3, 4, 4\<close> and not \<open>2, 2, 3, 3\<close>; it is \<open>3 + 3 + 4 + 4\<close> that equals
  \<open>2 * 5 + 4\<close>. And the capacity is computed in \<open>Int32\<close>: on the well-formed chain of
  \<open>2^30\<close> faces and \<open>2^30 + 1\<close> nodes, \<open>nbFace() * 2 + nbNode()\<close> wraps to
  \<open>-1073741823\<close>, which is the capacity the sequential builder passes to the store, and
  the scan builder's column array has no slot, where \<open>2 * |faces| + |nodes|\<close> is
  \<open>3221225473\<close>.
\<close>

theorem reserved_sizes_claim_fails:
  "sort (map (rowSize (buildMatrixGpuBuildLessCsr (twoTriangles (\<lambda>n. True))))
             (allNodes (twoTriangles (\<lambda>n. True)))) = [3, 3, 4, 4]
   \<and> sort (map (\<lambda>n. length (insertedColumns (buildMatrixCsr (twoTriangles (\<lambda>n. True))) n))
               (allNodes (twoTriangles (\<lambda>n. True)))) = [3, 3, 4, 4]
   \<and> [3, 3, 4, 4] \<noteq> [2, 2, 3, 3 :: nat]
   \<and> sum_list [2, 2, 3, 3 :: nat] \<noteq> 2 * nbFace (twoTriangles (\<lambda>n. True)) + nbNode (twoTriangles (\<lambda>n. True))
   \<and> faceConnectivity (chainMesh 1073741824)
   \<and> nbFace (chainMesh 1073741824) = 1073741824
   \<and> nbNode (chainMesh 1073741824) = 1073741825
   \<and> nnz (chainMesh 1073741824) = - 1073741823
   \<and> hd (buildMatrixCsr (chainMesh 1073741824)) = Initialize (- 1073741823) 1073741825
   \<and> length (m_matrix_column (buildMatrixGpuBuildLessCsr (chainMesh 1073741824))) = 0
   \<and> 2 * nbFace (chainMesh 1073741824) + nbNode (chainMesh 1073741824) = 3221225473"
proof -
  have a: "sort (map (rowSize (buildMatrixGpuBuildLessCsr (twoTriangles (\<lambda>n. True))))
             (allNodes (twoTriangles (\<lambda>n. True)))) = [3, 3, 4, 4]"
    by (simp add: twoTriangles_rowSizes)
  have b: "sort (map (\<lambda>n. length (insertedColumns (buildMatrixCsr (twoTriangles (\<lambda>n. True))) n))
               (allNodes (twoTriangles (\<lambda>n. True)))) = [3, 3, 4, 4]"
    by (simp add: twoTriangles_inserted)
  have c: "sum_list [2, 2, 3, 3 :: nat] \<noteq> 2 * nbFace (twoTriangles (\<lambda>n. True)) + nbNode (twoTriangles (\<lambda>n. True))"
    by (simp add: twoTriangles_def)
  have d: "nbFace (chainMesh 1073741824) = 1073741824" "nbNode (chainMesh 1073741824) = 1073741825"
    by (simp_all add: chainMesh_def)
  have e: "hd (buildMatrixCsr (chainMesh 1073741824)) = Initialize (- 1073741823) 1073741825"
    by (simp add: buildMatrixCsr_def chainMesh_nnz d)
  have f: "length (m_matrix_column (buildMatrixGpuBuildLessCsr (chainMesh 1073741824))) = 0"
    by (simp add: buildMatrixGpuBuildLessCsr_def Let_def csr_initialize_def chainMesh_nnz)
  from a b c d e f chainMesh_faceConnectivity [of 1073741824] chainMesh_nnz show ?thesis
    by simp
qed

text \<open>
  C3 as amended. For every mesh with well-formed face connectivity whose capacity
  \<open>2 * |faces| + |nodes|\<close> is below \<open>2^31\<close>, the sparsity builders reserve exactly
  \<open>degree + 1\<close> slots for the row of each node, the degree being the number of faces
  that end at the node: the scan builder \<open>_buildMatrixGpuBuildLessCsr\<close> as the span of
  the row between its offset and the next, the sequential builder \<open>_buildMatrixCsr\<close> as
  the coordinates it inserts for the row. Both allocate a total capacity of exactly
  \<open>2 * |faces| + |nodes|\<close> slots: the scan builder as the size of its column and value
  arrays, the sequential builder as the capacity it initialises its store with; both have
  one row per node. For the two triangles sharing an edge this gives 4 rows of sizes
  \<open>{3, 3, 4, 4}\<close>, summing to \<open>2 * 5 + 4 = 14\<close>.
\<close>

theorem sparsity_reserved_sizes:
  assumes "faceConnectivity m" and "2 * nbFace m + nbNode m < 2147483648"
  shows "(\<forall>n<nbNode m. rowSize (buildMatrixGpuBuildLessCsr m) n = length (facesOfNode m n) + 1)
       \<and> (\<forall>n<nbNode m. length (insertedColumns (buildMatrixCsr m) n) = length (facesOfNode m n) + 1)
       \<and> length (m_matrix_row (buildMatrixGpuBuildLessCsr m)) = nbNode m
       \<and> length (m_matrix_column (buildMatrixGpuBuildLessCsr m)) = 2 * nbFace m + nbNode m
       \<and> length (m_matrix_value (buildMatrixGpuBuildLessCsr m)) = 2 * nbFace m + nbNode m
       \<and> hd (buildMatrixCsr m) = Initialize (int (2 * nbFace m + nbNode m)) (nbNode m)
       \<and> nbNode (twoTriangles (\<lambda>n. True)) = 4 \<and> nbFace (twoTriangles (\<lambda>n. True)) = 5
       \<and> sort (map (rowSize (buildMatrixGpuBuildLessCsr (twoTriangles (\<lambda>n. True))))
                   (allNodes (twoTriangles (\<lambda>n. True)))) = [3, 3, 4, 4]
       \<and> sort (map (\<lambda>n. length (insertedColumns (buildMatrixCsr (twoTriangles (\<lambda>n. True))) n))
                   (allNodes (twoTriangles (\<lambda>n. True)))) = [3, 3, 4, 4]
       \<and> sum_list (map (rowSize (buildMatrixGpuBuildLessCsr (twoTriangles (\<lambda>n. True))))
                       (allNodes (twoTriangles (\<lambda>n. True)))) = 2 * 5 + 4"
proof -
  have sizes: "\<forall>n<nbNode m. rowSize (buildMatrixGpuBuildLessCsr m) n = length (facesOfNode m n) + 1"
    using rowSize_build [OF assms] degree_nodeFaces [OF assms(1)] by simp
  have ins: "\<forall>n<nbNode m. length (insertedColumns (buildMatrixCsr m) n) = length (facesOfNode m n) + 1"
    using insertedColumns_buildMatrixCsr [of _ m] degree_nodeFaces [OF assms(1)] by simp
  have seq: "hd (buildMatrixCsr m) = Initialize (int (2 * nbFace m + nbNode m)) (nbNode m)"
    using nnz_exact [OF assms(2)] by (simp add: buildMatrixCsr_def)
  have tt: "nbNode (twoTriangles (\<lambda>n. True)) = 4 \<and> nbFace (twoTriangles (\<lambda>n. True)) = 5"
    by (simp add: twoTriangles_def)
  have srt: "sort (map (rowSize (buildMatrixGpuBuildLessCsr (twoTriangles (\<lambda>n. True))))
                   (allNodes (twoTriangles (\<lambda>n. True)))) = [3, 3, 4, 4]"
    by (simp add: twoTriangles_rowSizes)
  have srt2: "sort (map (\<lambda>n. length (insertedColumns (buildMatrixCsr (twoTriangles (\<lambda>n. True))) n))
                   (allNodes (twoTriangles (\<lambda>n. True)))) = [3, 3, 4, 4]"
    by (simp add: twoTriangles_inserted)
  have total: "sum_list (map (rowSize (buildMatrixGpuBuildLessCsr (twoTriangles (\<lambda>n. True))))
                       (allNodes (twoTriangles (\<lambda>n. True)))) = 2 * 5 + 4"
    by (simp add: twoTriangles_rowSizes)
  from sizes ins build_row_length [of m] build_lengths [OF assms(2)] seq tt srt srt2 total
  show ?thesis by blast
qed

theorem sparsity_reserved_sizes_witness:
  "faceConnectivity (twoTriangles (\<lambda>n. True))
   \<and> 2 * nbFace (twoTriangles (\<lambda>n. True)) + nbNode (twoTriangles (\<lambda>n. True)) < 2147483648
   \<and> length (m_matrix_column (buildMatrixGpuBuildLessCsr (twoTriangles (\<lambda>n. True)))) = 14
   \<and> hd (buildMatrixCsr (twoTriangles (\<lambda>n. True))) = Initialize 14 4
   \<and> rowSize (buildMatrixGpuBuildLessCsr (twoTriangles (\<lambda>n. True))) 1
       = length (facesOfNode (twoTriangles (\<lambda>n. True)) 1) + 1
   \<and> length (insertedColumns (buildMatrixCsr (twoTriangles (\<lambda>n. True))) 1)
       = length (facesOfNode (twoTriangles (\<lambda>n. True)) 1) + 1
   \<and> rowSize (buildMatrixGpuBuildLessCsr (twoTriangles (\<lambda>n. True))) 3
       = length (facesOfNode (twoTriangles (\<lambda>n. True)) 3) + 1
   \<and> length (facesOfNode (twoTriangles (\<lambda>n. True)) 1) = 3
   \<and> length (facesOfNode (twoTriangles (\<lambda>n. True)) 3) = 2"
proof -
  have wf: "faceConnectivity (twoTriangles (\<lambda>n. True))"
    by code_simp
  have nb: "nbNode (twoTriangles (\<lambda>n. True)) = 4" "nbFace (twoTriangles (\<lambda>n. True)) = 5"
    by (simp_all add: twoTriangles_def)
  have cap: "2 * nbFace (twoTriangles (\<lambda>n. True)) + nbNode (twoTriangles (\<lambda>n. True)) < 2147483648"
    by (simp add: nb)
  have deg: "length (facesOfNode (twoTriangles (\<lambda>n. True)) 1) = 3"
      "length (facesOfNode (twoTriangles (\<lambda>n. True)) 3) = 2"
    by code_simp+
  from sparsity_reserved_sizes [OF wf cap] wf cap nb deg show ?thesis
    by simp
qed

subsection \<open>C7: rows of nodes that are not owned are never written\<close>

lemma addValueToGlobalMatrixTria3Gpu_frame:
  "addValueToGlobalMatrixTria3Gpu b e col cs vs x = Inr (cs', vs')
   \<Longrightarrow> length cs' = length cs \<and> length vs' = length vs
       \<and> (\<forall>k. \<not> (b \<le> k \<and> k < e) \<longrightarrow> cs' ! k = cs ! k \<and> vs' ! k = vs ! k)"
proof (induction b e col cs vs x rule: addValueToGlobalMatrixTria3Gpu.induct)
  case (1 b e col cs vs x)
  note eq = "1.prems" [unfolded addValueToGlobalMatrixTria3Gpu.simps [of b e col cs vs x]]
  show ?case
  proof (cases "b < e")
    case False
    with eq show ?thesis by simp
  next
    case be: True
    show ?thesis
    proof (cases "length cs \<le> b")
      case True
      with be eq show ?thesis by simp
    next
      case inb: False
      show ?thesis
      proof (cases "cs ! b = - 1")
        case True
        with be inb eq have "\<not> length vs \<le> b" "cs' = cs[b := col]" "vs' = vs[b := x]"
          by (auto split: if_splits)
        then show ?thesis using be by (auto simp: nth_list_update)
      next
        case nosent: False
        show ?thesis
        proof (cases "cs ! b = col")
          case True
          with be inb nosent eq have "\<not> length vs \<le> b" "cs' = cs" "vs' = vs[b := vs ! b + x]"
            by (auto split: if_splits)
          then show ?thesis using be by (auto simp: nth_list_update)
        next
          case False
          with be inb nosent eq
          have rec: "addValueToGlobalMatrixTria3Gpu (b + 1) e col cs vs x = Inr (cs', vs')"
            by simp
          from "1.IH" [OF be inb nosent False rec] show ?thesis by auto
        qed
      qed
    qed
  qed
qed

lemma csrGpuProbe_frame:
  "csrGpuProbe b e col cs vs x = Inr (cs', vs')
   \<Longrightarrow> length cs' = length cs \<and> length vs' = length vs
       \<and> (\<forall>k. \<not> (b \<le> k \<and> k < e) \<longrightarrow> cs' ! k = cs ! k \<and> vs' ! k = vs ! k)"
proof (induction b e col cs vs x rule: csrGpuProbe.induct)
  case (1 b e col cs vs x)
  note eq = "1.prems" [unfolded csrGpuProbe.simps [of b e col cs vs x]]
  show ?case
  proof (cases "b < e")
    case False
    with eq show ?thesis by simp
  next
    case be: True
    show ?thesis
    proof (cases "length cs \<le> b")
      case True
      with be eq show ?thesis by simp
    next
      case inb: False
      show ?thesis
      proof (cases "cs ! b = col")
        case True
        with be inb eq have "\<not> length vs \<le> b" "cs' = cs" "vs' = vs[b := vs ! b + x]"
          by (auto split: if_splits)
        then show ?thesis using be by (auto simp: nth_list_update)
      next
        case nosent: False
        show ?thesis
        proof (cases "cs ! b = - 1")
          case True
          with be inb nosent eq have "\<not> length vs \<le> b" "cs' = cs[b := col]" "vs' = vs[b := x]"
            by (auto split: if_splits)
          then show ?thesis using be by (auto simp: nth_list_update)
        next
          case False
          with be inb nosent eq
          have rec: "csrGpuProbe (b + 1) e col cs vs x = Inr (cs', vs')"
            by simp
          from "1.IH" [OF be inb nosent False rec] show ?thesis by auto
        qed
      qed
    qed
  qed
qed


lemma foldF_invariant:
  assumes "foldF f xs s = Inr s'" and "P s"
    and step: "\<And>x t t'. P t \<Longrightarrow> f x t = Inr t' \<Longrightarrow> P t'"
  shows "P s'"
  using assms(1,2)
proof (induction xs arbitrary: s)
  case Nil
  then show ?case by simp
next
  case (Cons x xs)
  from Cons.prems(1) obtain t where t: "f x s = Inr t" "foldF f xs t = Inr s'"
    by (auto split: sum.splits)
  have "P t" using step [OF Cons.prems(2) t(1)] .
  then show ?case using Cons.IH [OF t(2)] by simp
qed

lemma sameOutside_refl: "sameOutside S csr csr"
  by (simp add: sameOutside_def)

lemma sameOutside_rows:
  "sameOutside S csr csr' \<Longrightarrow> rowBegin csr' r = rowBegin csr r \<and> rowEnd csr' r = rowEnd csr r"
  by (simp add: sameOutside_def rowBegin_def rowEnd_def)

lemma probeFrame_probes: "probeFrame addValueToGlobalMatrixTria3Gpu" "probeFrame csrGpuProbe"
  unfolding probeFrame_def using addValueToGlobalMatrixTria3Gpu_frame csrGpuProbe_frame by blast+

lemma scatterAdd_own_frame:
  assumes pf: "probeFrame probe"
    and run: "scatterAdd probe node1 node2 v csr = Inr csr'"
    and own: "isOwn m node1"
    and rows: "length (m_matrix_row csr0) = nbNode m"
    and inv: "sameOutside (ownRowSlot m csr0) csr0 csr"
  shows "sameOutside (ownRowSlot m csr0) csr0 csr'"
proof -
  let ?row = "dofId node1"
  from run have inr: "?row < length (m_matrix_row csr)"
    by (auto simp: scatterAdd_def Let_def split: if_splits)
  from run inr obtain cs vs where
    p: "probe (rowBegin csr ?row) (rowEnd csr ?row) (int (dofId node2))
              (m_matrix_column csr) (m_matrix_value csr) v = Inr (cs, vs)"
    and c': "csr' = csr\<lparr>m_matrix_column := cs, m_matrix_value := vs\<rparr>"
    by (auto simp: scatterAdd_def Let_def split: sum.splits)
  from pf p have fr: "length cs = length (m_matrix_column csr)" "length vs = length (m_matrix_value csr)"
      "\<forall>k. \<not> (rowBegin csr ?row \<le> k \<and> k < rowEnd csr ?row)
             \<longrightarrow> cs ! k = m_matrix_column csr ! k \<and> vs ! k = m_matrix_value csr ! k"
    unfolding probeFrame_def by blast+
  from inv have same: "m_matrix_row csr = m_matrix_row csr0"
      "length (m_matrix_column csr) = length (m_matrix_column csr0)"
      "length (m_matrix_value csr) = length (m_matrix_value csr0)"
      "\<forall>k. \<not> ownRowSlot m csr0 k \<longrightarrow> m_matrix_column csr ! k = m_matrix_column csr0 ! k
                      \<and> m_matrix_value csr ! k = m_matrix_value csr0 ! k"
    by (simp_all add: sameOutside_def)
  have span: "rowBegin csr ?row = rowBegin csr0 ?row" "rowEnd csr ?row = rowEnd csr0 ?row"
    using sameOutside_rows [OF inv] by simp_all
  have node: "node1 < nbNode m" using inr same(1) rows by (simp add: dofId_def)
  have inS: "ownRowSlot m csr0 k" if "rowBegin csr ?row \<le> k \<and> k < rowEnd csr ?row" for k
    using that own node span unfolding ownRowSlot_def by auto
  have "\<forall>k. \<not> ownRowSlot m csr0 k \<longrightarrow> cs ! k = m_matrix_column csr0 ! k \<and> vs ! k = m_matrix_value csr0 ! k"
  proof (intro allI impI)
    fix k assume k: "\<not> ownRowSlot m csr0 k"
    then have "\<not> (rowBegin csr ?row \<le> k \<and> k < rowEnd csr ?row)" using inS by blast
    then show "cs ! k = m_matrix_column csr0 ! k \<and> vs ! k = m_matrix_value csr0 ! k"
      using fr(3) same(4) k by simp
  qed
  then show ?thesis using c' fr(1,2) same(1,2,3) by (simp add: sameOutside_def)
qed

lemma csrGpuCell_frame:
  assumes run: "csrGpuCell m icell csr = Inr csr'"
    and rows: "length (m_matrix_row csr0) = nbNode m"
    and inv: "sameOutside (ownRowSlot m csr0) csr0 csr"
  shows "sameOutside (ownRowSlot m csr0) csr0 csr'"
proof -
  let ?P = "sameOutside (ownRowSlot m csr0) csr0"
  let ?K = "computeElementMatrixTRIA3GPU m icell"
  let ?inner = "\<lambda>(n1_index, node1). foldF (\<lambda>(n2_index, node2) csr'.
                    (let v = ?K ! (n1_index * 3 + n2_index)
                     in if isOwn m node1 then scatterAdd csrGpuProbe node1 node2 v csr'
                        else Inr csr'))
                 (enumerate 0 (cellNodes m icell))"
  from run have r: "foldF ?inner (enumerate 0 (cellNodes m icell)) csr = Inr csr'"
    by (simp add: csrGpuCell_def Let_def)
  show ?thesis
  proof (rule foldF_invariant [where P = ?P, OF r inv])
    fix x t t' assume "?P t" and step: "?inner x t = Inr t'"
    obtain n1_index node1 where x: "x = (n1_index, node1)" by (cases x)
    from step x have r2: "foldF (\<lambda>(n2_index, node2) csr'.
                    (let v = ?K ! (n1_index * 3 + n2_index)
                     in if isOwn m node1 then scatterAdd csrGpuProbe node1 node2 v csr'
                        else Inr csr'))
                 (enumerate 0 (cellNodes m icell)) t = Inr t'"
      by simp
    show "?P t'"
    proof (rule foldF_invariant [where P = ?P, OF r2 \<open>?P t\<close>])
      fix y u u' assume pu: "?P u"
        and s2: "(\<lambda>(n2_index, node2) csr'.
                    (let v = ?K ! (n1_index * 3 + n2_index)
                     in if isOwn m node1 then scatterAdd csrGpuProbe node1 node2 v csr'
                        else Inr csr')) y u = Inr u'"
      obtain n2_index node2 where y: "y = (n2_index, node2)" by (cases y)
      show "?P u'"
      proof (cases "isOwn m node1")
        case True
        with s2 y have "scatterAdd csrGpuProbe node1 node2 (?K ! (n1_index * 3 + n2_index)) u = Inr u'"
          by (simp add: Let_def)
        from scatterAdd_own_frame [OF probeFrame_probes(2) this True rows pu] show ?thesis .
      next
        case False
        with s2 y have "u' = u" by (simp add: Let_def)
        with pu show ?thesis by simp
      qed
    qed
  qed
qed

lemma csrGpuCells_frame:
  assumes run: "csrGpuCells m cells csr = Inr csr'"
    and rows: "length (m_matrix_row csr0) = nbNode m"
    and inv: "sameOutside (ownRowSlot m csr0) csr0 csr"
  shows "sameOutside (ownRowSlot m csr0) csr0 csr'"
  using run unfolding csrGpuCells_def
  by (rule foldF_invariant [where P = "sameOutside (ownRowSlot m csr0) csr0", OF _ inv])
     (rule csrGpuCell_frame [OF _ rows])

lemma buildLessNodeCell_frame:
  assumes run: "buildLessNodeCell m inode cell csr = Inr csr'"
    and rows: "length (m_matrix_row csr0) = nbNode m"
    and inv: "sameOutside (ownRowSlot m csr0) csr0 csr"
  shows "sameOutside (ownRowSlot m csr0) csr0 csr'"
proof -
  let ?P = "sameOutside (ownRowSlot m csr0) csr0"
  obtain area b_matrix where ab: "computeCellMatrixGpuTRIA3 m cell = (area, b_matrix)"
    by (cases "computeCellMatrixGpuTRIA3 m cell")
  let ?idx = "(if inode = cellNodeId m cell 1 then 1 else if inode = cellNodeId m cell 2 then 2 else 0) :: nat"
  let ?body = "\<lambda>(i, node2) csr'.
                  (let x = foldl (\<lambda>x k. x + b_matrix ! (?idx * 2 + k) * b_matrix ! (i * 2 + k))
                                 0 [0, 1] * area
                   in if isOwn m inode
                      then scatterAdd addValueToGlobalMatrixTria3Gpu inode node2 x csr'
                      else Inr csr')"
  from run ab have r: "foldF ?body (enumerate 0 (cellNodes m cell)) csr = Inr csr'"
    by (simp add: buildLessNodeCell_def Let_def)
  show ?thesis
  proof (rule foldF_invariant [where P = ?P, OF r inv])
    fix y u u' assume pu: "?P u" and s2: "?body y u = Inr u'"
    obtain i node2 where y: "y = (i, node2)" by (cases y)
    show "?P u'"
    proof (cases "isOwn m inode")
      case True
      with s2 y have "scatterAdd addValueToGlobalMatrixTria3Gpu inode node2
           (foldl (\<lambda>x k. x + b_matrix ! (?idx * 2 + k) * b_matrix ! (i * 2 + k)) 0 [0, 1] * area) u = Inr u'"
        by (simp add: Let_def)
      from scatterAdd_own_frame [OF probeFrame_probes(1) this True rows pu] show ?thesis .
    next
      case False
      with s2 y have "u' = u" by (simp add: Let_def)
      with pu show ?thesis by simp
    qed
  qed
qed

lemma buildLessNodes_frame:
  assumes run: "buildLessNodes m nodes csr = Inr csr'"
    and rows: "length (m_matrix_row csr0) = nbNode m"
    and inv: "sameOutside (ownRowSlot m csr0) csr0 csr"
  shows "sameOutside (ownRowSlot m csr0) csr0 csr'"
proof -
  let ?P = "sameOutside (ownRowSlot m csr0) csr0"
  from run have r: "foldF (buildLessNode m) nodes csr = Inr csr'"
    by (simp add: buildLessNodes_def)
  show ?thesis
  proof (rule foldF_invariant [where P = ?P, OF r inv])
    fix x t t' assume pt: "?P t" and step: "buildLessNode m x t = Inr t'"
    then have r2: "foldF (buildLessNodeCell m x) (nodeCells m x) t = Inr t'"
      by (simp add: buildLessNode_def)
    show "?P t'"
      by (rule foldF_invariant [where P = ?P, OF r2 pt]) (rule buildLessNodeCell_frame [OF _ rows])
  qed
qed


lemma ghost_slot_not_own:
  assumes g: "g < nbNode m" "\<not> isOwn m g"
    and k: "rowBegin (buildMatrixGpuBuildLessCsr m) (dofId g) \<le> k"
           "k < rowEnd (buildMatrixGpuBuildLessCsr m) (dofId g)"
  shows "\<not> ownRowSlot m (buildMatrixGpuBuildLessCsr m) k"
proof
  let ?csr = "buildMatrixGpuBuildLessCsr m"
  assume "ownRowSlot m ?csr k"
  then obtain n where n: "n < nbNode m" "isOwn m n" "rowBegin ?csr (dofId n) \<le> k" "k < rowEnd ?csr (dofId n)"
    unfolding ownRowSlot_def by blast
  from n(2) g(2) have "n \<noteq> g" by blast
  then consider "n < g" | "g < n" by linarith
  then show False
  proof cases
    case 1
    then have "Suc n < nbNode m" using g(1) by simp
    then have "rowEnd ?csr (dofId n) = m_matrix_row ?csr ! Suc n"
      by (simp add: rowEnd_def dofId_def build_row_length)
    also have "\<dots> \<le> m_matrix_row ?csr ! g"
      using 1 g(1) by (intro build_row_mono) simp_all
    finally show False using k(1) n(4) by (simp add: rowBegin_def dofId_def)
  next
    case 2
    then have "Suc g < nbNode m" using n(1) by simp
    then have "rowEnd ?csr (dofId g) = m_matrix_row ?csr ! Suc g"
      by (simp add: rowEnd_def dofId_def build_row_length)
    also have "\<dots> \<le> m_matrix_row ?csr ! n"
      using 2 n(1) by (intro build_row_mono) simp_all
    finally show False using k(2) n(3) by (simp add: rowBegin_def dofId_def)
  qed
qed

lemma csrCellCalls_own:
  "MatrixAddValue r c v \<in> set (csrCellCalls m cell) \<Longrightarrow> \<exists>n. isOwn m n \<and> r = dofId n"
  by (auto simp: csrCellCalls_def Let_def split: if_splits)

lemma buildMatrixCsr_no_add: "MatrixAddValue r c v \<notin> set (buildMatrixCsr m)"
  by (auto simp: buildMatrixCsr_def Let_def)

lemma sequential_adds_own:
  "MatrixAddValue r c v \<in> set (assembleCsrBilinearOperatorTRIA3 m) \<Longrightarrow> \<exists>n. isOwn m n \<and> r = dofId n"
  using buildMatrixCsr_no_add [of r c v m] csrCellCalls_own [of r c v m]
  by (auto simp: assembleCsrBilinearOperatorTRIA3_def)

lemma build_initial_values:
  "k < length (m_matrix_column (buildMatrixGpuBuildLessCsr m)) \<Longrightarrow>
     m_matrix_column (buildMatrixGpuBuildLessCsr m) ! k = - 1
     \<and> m_matrix_value (buildMatrixGpuBuildLessCsr m) ! k = 0"
  by (simp add: buildMatrixGpuBuildLessCsr_def Let_def csr_initialize_def)

text \<open>
  C7. In both device paths a run that completes has written only slots that belong to rows
  of owned nodes: outside those slots the store is as \<open>_buildMatrixGpuBuildLessCsr\<close> left
  it. Let \<open>g\<close> be a node of the mesh that the partition does not own, and \<open>k\<close> a slot of
  its row in the store built by \<open>_buildMatrixGpuBuildLessCsr\<close>. Whatever cells the device
  CSR path processes and in whatever order, and whatever nodes the build-less path processes
  and in whatever order, a run that completes leaves slot \<open>k\<close> of the column and value
  arrays as the builder left it, which is the sentinel and zero; in particular this holds
  for \<open>_assembleCsrAllGPUBilinearOperatorTRIA3\<close> and
  \<open>_assembleBuildLessCsrBilinearOperatorTria3\<close>. The slots of the arrays are those below
  \<open>2 * |faces| + |nodes|\<close> whenever that capacity does not overflow \<open>Int32\<close>. In the
  sequential path every \<open>matrixAddValue\<close> call names the row of an owned node.
\<close>

theorem ghost_rows_never_written:
  assumes "g < nbNode m" and "\<not> isOwn m g"
    and "rowBegin (buildMatrixGpuBuildLessCsr m) (dofId g) \<le> k"
    and "k < rowEnd (buildMatrixGpuBuildLessCsr m) (dofId g)"
  shows "(\<forall>cells csr'. csrGpuCells m cells (buildMatrixGpuBuildLessCsr m) = Inr csr' \<longrightarrow>
            sameOutside (ownRowSlot m (buildMatrixGpuBuildLessCsr m)) (buildMatrixGpuBuildLessCsr m) csr')
       \<and> (\<forall>nodes csr'. buildLessNodes m nodes (buildMatrixGpuBuildLessCsr m) = Inr csr' \<longrightarrow>
            sameOutside (ownRowSlot m (buildMatrixGpuBuildLessCsr m)) (buildMatrixGpuBuildLessCsr m) csr')
       \<and> (\<forall>cells csr'. csrGpuCells m cells (buildMatrixGpuBuildLessCsr m) = Inr csr' \<longrightarrow>
            m_matrix_column csr' ! k = m_matrix_column (buildMatrixGpuBuildLessCsr m) ! k
            \<and> m_matrix_value csr' ! k = m_matrix_value (buildMatrixGpuBuildLessCsr m) ! k)
       \<and> (\<forall>csr'. assembleCsrAllGPUBilinearOperatorTRIA3 m = Inr csr' \<longrightarrow>
            m_matrix_column csr' ! k = m_matrix_column (buildMatrixGpuBuildLessCsr m) ! k
            \<and> m_matrix_value csr' ! k = m_matrix_value (buildMatrixGpuBuildLessCsr m) ! k)
       \<and> (\<forall>nodes csr'. buildLessNodes m nodes (buildMatrixGpuBuildLessCsr m) = Inr csr' \<longrightarrow>
            m_matrix_column csr' ! k = m_matrix_column (buildMatrixGpuBuildLessCsr m) ! k
            \<and> m_matrix_value csr' ! k = m_matrix_value (buildMatrixGpuBuildLessCsr m) ! k)
       \<and> (\<forall>csr'. assembleBuildLessCsrBilinearOperatorTria3 m = Inr csr' \<longrightarrow>
            m_matrix_column csr' ! k = m_matrix_column (buildMatrixGpuBuildLessCsr m) ! k
            \<and> m_matrix_value csr' ! k = m_matrix_value (buildMatrixGpuBuildLessCsr m) ! k)
       \<and> (k < length (m_matrix_column (buildMatrixGpuBuildLessCsr m)) \<longrightarrow>
            m_matrix_column (buildMatrixGpuBuildLessCsr m) ! k = - 1
            \<and> m_matrix_value (buildMatrixGpuBuildLessCsr m) ! k = 0)
       \<and> (2 * nbFace m + nbNode m < 2147483648 \<longrightarrow>
            length (m_matrix_column (buildMatrixGpuBuildLessCsr m)) = 2 * nbFace m + nbNode m)
       \<and> (\<forall>r c v. MatrixAddValue r c v \<in> set (assembleCsrBilinearOperatorTRIA3 m) \<longrightarrow>
            (\<exists>n. isOwn m n \<and> r = dofId n))"
proof -
  let ?csr0 = "buildMatrixGpuBuildLessCsr m"
  have rows: "length (m_matrix_row ?csr0) = nbNode m" using build_row_length [of m] by simp
  have notown: "\<not> ownRowSlot m ?csr0 k" using ghost_slot_not_own [OF assms] .
  have keep: "m_matrix_column csr' ! k = m_matrix_column ?csr0 ! k
            \<and> m_matrix_value csr' ! k = m_matrix_value ?csr0 ! k"
    if "sameOutside (ownRowSlot m ?csr0) ?csr0 csr'" for csr'
    using that notown by (simp add: sameOutside_def)
  have gpu: "m_matrix_column csr' ! k = m_matrix_column ?csr0 ! k
            \<and> m_matrix_value csr' ! k = m_matrix_value ?csr0 ! k"
    if "csrGpuCells m cells ?csr0 = Inr csr'" for cells csr'
    using keep [OF csrGpuCells_frame [OF that rows sameOutside_refl]] .
  have bl: "m_matrix_column csr' ! k = m_matrix_column ?csr0 ! k
            \<and> m_matrix_value csr' ! k = m_matrix_value ?csr0 ! k"
    if "buildLessNodes m nodes ?csr0 = Inr csr'" for nodes csr'
    using keep [OF buildLessNodes_frame [OF that rows sameOutside_refl]] .
  have gpu_frame: "sameOutside (ownRowSlot m ?csr0) ?csr0 csr'"
    if "csrGpuCells m cells ?csr0 = Inr csr'" for cells csr'
    using csrGpuCells_frame [OF that rows sameOutside_refl] .
  have bl_frame: "sameOutside (ownRowSlot m ?csr0) ?csr0 csr'"
    if "buildLessNodes m nodes ?csr0 = Inr csr'" for nodes csr'
    using buildLessNodes_frame [OF that rows sameOutside_refl] .
  have cap: "2 * nbFace m + nbNode m < 2147483648 \<longrightarrow>
            length (m_matrix_column ?csr0) = 2 * nbFace m + nbNode m"
    using build_lengths [of m] by blast
  show ?thesis
    using gpu_frame bl_frame gpu bl build_initial_values [of k m] cap sequential_adds_own [of _ _ _ m]
    unfolding assembleCsrAllGPUBilinearOperatorTRIA3_def assembleBuildLessCsrBilinearOperatorTria3_def
    by blast
qed

lemma twoTrianglesGhost_csrGpu: "assembleCsrAllGPUBilinearOperatorTRIA3 (twoTriangles (\<lambda>n. n \<noteq> 3)) =
  Inr \<lparr>m_matrix_row = [0, 3, 7, 11],
        m_matrix_column = [0, 1, 2, 0, 1, 2, 3, 0, 1, 2, 3, - 1, - 1, - 1],
        m_matrix_value =
          [1, - (1 / 2), - (1 / 2), - (1 / 2), 1, 0, - (1 / 2), - (1 / 2),
           0, 1, - (1 / 2), 0, 0, 0]\<rparr>"
  by code_simp

lemma twoTrianglesGhost_buildLess: "assembleBuildLessCsrBilinearOperatorTria3 (twoTriangles (\<lambda>n. n \<noteq> 3)) =
  Inr \<lparr>m_matrix_row = [0, 3, 7, 11],
        m_matrix_column = [0, 1, 2, 0, 1, 2, 3, 0, 1, 2, 3, - 1, - 1, - 1],
        m_matrix_value =
          [1, - (1 / 2), - (1 / 2), - (1 / 2), 1, 0, - (1 / 2), - (1 / 2),
           0, 1, - (1 / 2), 0, 0, 0]\<rparr>"
  by code_simp

theorem ghost_rows_never_written_witness:
  "3 < nbNode (twoTriangles (\<lambda>n. n \<noteq> 3)) \<and> \<not> isOwn (twoTriangles (\<lambda>n. n \<noteq> 3)) 3
   \<and> rowBegin (buildMatrixGpuBuildLessCsr (twoTriangles (\<lambda>n. n \<noteq> 3))) (dofId 3) \<le> 12
   \<and> 12 < rowEnd (buildMatrixGpuBuildLessCsr (twoTriangles (\<lambda>n. n \<noteq> 3))) (dofId 3)
   \<and> (\<exists>csr'. assembleCsrAllGPUBilinearOperatorTRIA3 (twoTriangles (\<lambda>n. n \<noteq> 3)) = Inr csr'
         \<and> m_matrix_column csr' ! 12 = - 1 \<and> m_matrix_value csr' ! 12 = 0)
   \<and> (\<exists>csr'. assembleBuildLessCsrBilinearOperatorTria3 (twoTriangles (\<lambda>n. n \<noteq> 3)) = Inr csr'
         \<and> m_matrix_column csr' ! 12 = - 1 \<and> m_matrix_value csr' ! 12 = 0)"
proof -
  let ?m = "twoTriangles (\<lambda>n. n \<noteq> 3)"
  have h1: "3 < nbNode ?m" by (simp add: twoTriangles_def)
  have h2: "\<not> isOwn ?m 3" by (simp add: twoTriangles_def)
  have h3: "rowBegin (buildMatrixGpuBuildLessCsr ?m) (dofId 3) \<le> 12" by code_simp
  have h4: "12 < rowEnd (buildMatrixGpuBuildLessCsr ?m) (dofId 3)" by code_simp
  note t = ghost_rows_never_written [OF h1 h2 h3 h4]
  have small: "2 * nbFace ?m + nbNode ?m < 2147483648" by (simp add: twoTriangles_def)
  from t small have "length (m_matrix_column (buildMatrixGpuBuildLessCsr ?m)) = 2 * nbFace ?m + nbNode ?m"
    by blast
  then have cap: "12 < length (m_matrix_column (buildMatrixGpuBuildLessCsr ?m))"
    by (simp add: twoTriangles_def)
  from t cap have init: "m_matrix_column (buildMatrixGpuBuildLessCsr ?m) ! 12 = - 1"
      "m_matrix_value (buildMatrixGpuBuildLessCsr ?m) ! 12 = 0"
    by blast+
  from t twoTrianglesGhost_csrGpu init have a: "\<exists>csr'. assembleCsrAllGPUBilinearOperatorTRIA3 ?m = Inr csr'
         \<and> m_matrix_column csr' ! 12 = - 1 \<and> m_matrix_value csr' ! 12 = 0"
    by metis
  from t twoTrianglesGhost_buildLess init have b: "\<exists>csr'. assembleBuildLessCsrBilinearOperatorTria3 ?m = Inr csr'
         \<and> m_matrix_column csr' ! 12 = - 1 \<and> m_matrix_value csr' ! 12 = 0"
    by metis
  from h1 h2 h3 h4 a b show ?thesis by blast
qed


subsection \<open>C5: two concurrent units at the same sentinel slot\<close>

lemma run_schedule_append:
  "run_schedule (xs @ ys) st = run_schedule ys (run_schedule xs st)"
proof (induction xs arbitrary: st)
  case Nil
  then show ?case by simp
next
  case (Cons i xs)
  obtain us sh where st: "st = (us, sh)" by (cases st)
  show ?case using Cons.IH by (simp add: st split: prod.splits)
qed

lemma run_one:
  "run_schedule [0] ([u], sh) = (case unit_step u sh of (u', sh') \<Rightarrow> ([u'], sh'))"
  by (simp split: prod.splits)

text \<open>
  The state machine agrees with the probe: a unit that runs alone on a row inside the
  arrays finishes, and leaves the arrays that \<open>csrGpuProbe\<close> returns.
\<close>

lemma unit_alone_is_csrGpuProbe:
  assumes "e \<le> length cs" "e \<le> length vs"
  shows "\<exists>n u' sh'. run_schedule (replicate n 0) ([unit_start b e c v], \<lparr>sh_col = cs, sh_val = vs\<rparr>) = ([u'], sh')
           \<and> unit_pc u' = Finished
           \<and> csrGpuProbe b e c cs vs v = Inr (sh_col sh', sh_val sh')"
  using assms
proof (induction b e c cs vs v rule: csrGpuProbe.induct)
  case (1 b e c cs vs v)
  let ?sh = "\<lparr>sh_col = cs, sh_val = vs\<rparr>"
  show ?case
  proof (cases "b < e")
    case False
    have "run_schedule (replicate 1 0) ([unit_start b e c v], ?sh) = ([(unit_start b e c v)\<lparr>unit_pc := Finished\<rparr>], ?sh)"
      using False by (simp add: unit_start_def)
    moreover have "csrGpuProbe b e c cs vs v = Inr (cs, vs)"
      using False by (subst csrGpuProbe.simps) simp
    ultimately show ?thesis by (intro exI [of _ 1] exI conjI) (assumption, simp_all)
  next
    case be: True
    with "1.prems" have inb: "\<not> length cs \<le> b" "\<not> length vs \<le> b" by simp_all
    show ?thesis
    proof (cases "cs ! b = c")
      case True
      have "run_schedule (replicate 2 0) ([unit_start b e c v], ?sh)
            = ([(unit_start b e c v)\<lparr>unit_pc := Finished\<rparr>], \<lparr>sh_col = cs, sh_val = vs[b := vs ! b + v]\<rparr>)"
        using be True by (simp add: unit_start_def numeral_2_eq_2)
      moreover have "csrGpuProbe b e c cs vs v = Inr (cs, vs[b := vs ! b + v])"
        using be True inb by (subst csrGpuProbe.simps) simp
      ultimately show ?thesis by (intro exI [of _ 2] exI conjI) (assumption, simp_all)
    next
      case nomatch: False
      show ?thesis
      proof (cases "cs ! b = - 1")
        case True
        have "run_schedule (replicate 4 0) ([unit_start b e c v], ?sh)
              = ([(unit_start b e c v)\<lparr>unit_pc := Finished\<rparr>], \<lparr>sh_col = cs[b := c], sh_val = vs[b := v]\<rparr>)"
          using be True nomatch by (simp add: unit_start_def eval_nat_numeral)
        moreover have "csrGpuProbe b e c cs vs v = Inr (cs[b := c], vs[b := v])"
          using be True nomatch inb by (subst csrGpuProbe.simps) simp
        ultimately show ?thesis by (intro exI [of _ 4] exI conjI) (assumption, simp_all)
      next
        case False
        from "1.IH" [OF be inb(1) nomatch False "1.prems"] obtain n u' sh' where
          ih: "run_schedule (replicate n 0) ([unit_start (b + 1) e c v], ?sh) = ([u'], sh')"
              "unit_pc u' = Finished"
              "csrGpuProbe (b + 1) e c cs vs v = Inr (sh_col sh', sh_val sh')"
          by blast
        have two: "run_schedule (replicate 2 0) ([unit_start b e c v], ?sh) = ([unit_start (b + 1) e c v], ?sh)"
          using be False nomatch by (simp add: unit_start_def numeral_2_eq_2)
        have "replicate (2 + n) (0::nat) = replicate 2 0 @ replicate n 0"
          by (simp only: replicate_add)
        then have "run_schedule (replicate (2 + n) 0) ([unit_start b e c v], ?sh) = ([u'], sh')"
          using two ih(1) by (simp only: run_schedule_append)
        moreover have "csrGpuProbe b e c cs vs v = Inr (sh_col sh', sh_val sh')"
          using be False nomatch inb ih(3) by (subst csrGpuProbe.simps) simp
        ultimately show ?thesis using ih(2) by blast
      qed
    qed
  qed
qed

text \<open>
  C5 (evaluation of two interleavings on the two-triangles mesh). Both cells contain node
  \<open>1\<close>, whose row has the slots \<open>3..<7\<close>.

  Different columns: the unit of cell \<open>0\<close> scatters entry \<open>(1, 0)\<close> with value
  \<open>-1/2\<close>, the unit of cell \<open>1\<close> entry \<open>(1, 1)\<close> with value \<open>1/2\<close>, into the
  store as built. When both units read slot \<open>3\<close> before either stores, both find the
  sentinel and both store: the second store overwrites the slot the first unit claimed.
  Slot \<open>3\<close> ends with column \<open>1\<close>, column \<open>0\<close> is nowhere in the row, and the unit
  that lost did not probe forward. Run one after the other, the two units fill slots
  \<open>3\<close> and \<open>4\<close>.

  Same column: slot \<open>3\<close> already holds column \<open>0\<close>; the unit of cell \<open>0\<close> scatters
  its entry \<open>(1, 1)\<close>, value \<open>1/2\<close>, and the unit of cell \<open>1\<close> its entry
  \<open>(1, 1)\<close>, value \<open>1/2\<close>. When both read the sentinel in slot \<open>4\<close> before either
  stores, both store their own value and slot \<open>4\<close> ends with \<open>1/2\<close>; run one after
  the other the second unit takes the atomic add and the slot ends with \<open>1\<close>.
\<close>

theorem concurrent_units_lose_contribution:
  "rowBegin (buildMatrixGpuBuildLessCsr (twoTriangles (\<lambda>n. True))) (dofId 1) = 3
   \<and> rowEnd (buildMatrixGpuBuildLessCsr (twoTriangles (\<lambda>n. True))) (dofId 1) = 7
   \<and> computeElementMatrixTRIA3GPU (twoTriangles (\<lambda>n. True)) 0 ! (1 * 3 + 0) = - (1 / 2)
   \<and> computeElementMatrixTRIA3GPU (twoTriangles (\<lambda>n. True)) 0 ! (1 * 3 + 1) = 1 / 2
   \<and> computeElementMatrixTRIA3GPU (twoTriangles (\<lambda>n. True)) 1 ! (0 * 3 + 0) = 1 / 2
   \<and> run_schedule [0, 1, 0, 1, 0, 0, 1, 1]
        ([unit_start 3 7 0 (- (1 / 2)), unit_start 3 7 1 (1 / 2)],
         \<lparr>sh_col = m_matrix_column (buildMatrixGpuBuildLessCsr (twoTriangles (\<lambda>n. True))),
          sh_val = m_matrix_value (buildMatrixGpuBuildLessCsr (twoTriangles (\<lambda>n. True)))\<rparr>)
       = ([\<lparr>unit_pc = Finished, unit_begin = 3, unit_end = 7, unit_col = 0, unit_v = - (1 / 2)\<rparr>,
           \<lparr>unit_pc = Finished, unit_begin = 3, unit_end = 7, unit_col = 1, unit_v = 1 / 2\<rparr>],
          \<lparr>sh_col = [- 1, - 1, - 1, 1, - 1, - 1, - 1, - 1, - 1, - 1, - 1, - 1, - 1, - 1],
           sh_val = [0, 0, 0, 1 / 2, 0, 0, 0, 0, 0, 0, 0, 0, 0, 0]\<rparr>)
   \<and> run_schedule [0, 0, 0, 0, 1, 1, 1, 1, 1, 1]
        ([unit_start 3 7 0 (- (1 / 2)), unit_start 3 7 1 (1 / 2)],
         \<lparr>sh_col = m_matrix_column (buildMatrixGpuBuildLessCsr (twoTriangles (\<lambda>n. True))),
          sh_val = m_matrix_value (buildMatrixGpuBuildLessCsr (twoTriangles (\<lambda>n. True)))\<rparr>)
       = ([\<lparr>unit_pc = Finished, unit_begin = 3, unit_end = 7, unit_col = 0, unit_v = - (1 / 2)\<rparr>,
           \<lparr>unit_pc = Finished, unit_begin = 4, unit_end = 7, unit_col = 1, unit_v = 1 / 2\<rparr>],
          \<lparr>sh_col = [- 1, - 1, - 1, 0, 1, - 1, - 1, - 1, - 1, - 1, - 1, - 1, - 1, - 1],
           sh_val = [0, 0, 0, - (1 / 2), 1 / 2, 0, 0, 0, 0, 0, 0, 0, 0, 0]\<rparr>)
   \<and> run_schedule [0, 0, 0, 0, 1, 1, 1, 1, 0, 0, 1, 1]
        ([unit_start 3 7 1 (1 / 2), unit_start 3 7 1 (1 / 2)],
         \<lparr>sh_col = [0, 1, 2, 0, - 1, - 1, - 1, - 1, - 1, - 1, - 1, - 1, - 1, - 1],
          sh_val = [1, - (1 / 2), - (1 / 2), - (1 / 2), 0, 0, 0, 0, 0, 0, 0, 0, 0, 0]\<rparr>)
       = ([\<lparr>unit_pc = Finished, unit_begin = 4, unit_end = 7, unit_col = 1, unit_v = 1 / 2\<rparr>,
           \<lparr>unit_pc = Finished, unit_begin = 4, unit_end = 7, unit_col = 1, unit_v = 1 / 2\<rparr>],
          \<lparr>sh_col = [0, 1, 2, 0, 1, - 1, - 1, - 1, - 1, - 1, - 1, - 1, - 1, - 1],
           sh_val = [1, - (1 / 2), - (1 / 2), - (1 / 2), 1 / 2, 0, 0, 0, 0, 0, 0, 0, 0, 0]\<rparr>)
   \<and> run_schedule [0, 0, 0, 0, 0, 0, 1, 1, 1, 1, 1, 1]
        ([unit_start 3 7 1 (1 / 2), unit_start 3 7 1 (1 / 2)],
         \<lparr>sh_col = [0, 1, 2, 0, - 1, - 1, - 1, - 1, - 1, - 1, - 1, - 1, - 1, - 1],
          sh_val = [1, - (1 / 2), - (1 / 2), - (1 / 2), 0, 0, 0, 0, 0, 0, 0, 0, 0, 0]\<rparr>)
       = ([\<lparr>unit_pc = Finished, unit_begin = 4, unit_end = 7, unit_col = 1, unit_v = 1 / 2\<rparr>,
           \<lparr>unit_pc = Finished, unit_begin = 4, unit_end = 7, unit_col = 1, unit_v = 1 / 2\<rparr>],
          \<lparr>sh_col = [0, 1, 2, 0, 1, - 1, - 1, - 1, - 1, - 1, - 1, - 1, - 1, - 1],
           sh_val = [1, - (1 / 2), - (1 / 2), - (1 / 2), 1, 0, 0, 0, 0, 0, 0, 0, 0, 0]\<rparr>)"
  by code_simp

subsection \<open>C2: the scatter strategies on the two-triangles mesh\<close>

text \<open>
  C2 (evaluation on the two-triangles mesh, every node owned). The build-less path leaves
  the matrix \<open>B\<close> below. The device CSR path, with its two cells run as concurrent units,
  leaves the same store when the unit of cell \<open>0\<close> runs to its end before the unit of
  cell \<open>1\<close> starts. Under the schedule in which the unit of cell \<open>0\<close> first scatters
  its row \<open>0\<close>, then both units read slot \<open>3\<close> of row \<open>1\<close> before either stores
  into it, and then each runs to its end, both units finish and column \<open>0\<close> is nowhere in
  row \<open>1\<close>: entry \<open>(1, 0)\<close> of the device CSR result is \<open>0\<close> where the build-less
  result has \<open>-1/2\<close>, which is not within the tolerance.
\<close>

theorem scatter_strategies_disagree:
  "assembleBuildLessCsrBilinearOperatorTria3 (twoTriangles (\<lambda>n. True)) =
     Inr \<lparr>m_matrix_row = [0, 3, 7, 11],
          m_matrix_column = [0, 1, 2, 0, 1, 2, 3, 0, 1, 2, 3, 1, 3, 2],
          m_matrix_value = [1, - (1 / 2), - (1 / 2), - (1 / 2), 1, 0, - (1 / 2), - (1 / 2),
                            0, 1, - (1 / 2), - (1 / 2), 1, - (1 / 2)]\<rparr>
   \<and> assembleCsrAllGPU_scheduled (twoTriangles (\<lambda>n. True)) (replicate 54 0 @ replicate 58 1) =
     ([[], []],
      \<lparr>m_matrix_row = [0, 3, 7, 11],
       m_matrix_column = [0, 1, 2, 0, 1, 2, 3, 0, 1, 2, 3, 1, 3, 2],
       m_matrix_value = [1, - (1 / 2), - (1 / 2), - (1 / 2), 1, 0, - (1 / 2), - (1 / 2),
                         0, 1, - (1 / 2), - (1 / 2), 1, - (1 / 2)]\<rparr>)
   \<and> assembleCsrAllGPU_scheduled (twoTriangles (\<lambda>n. True))
        (replicate 18 0 @ [0, 1, 0, 1, 0, 0, 1, 1] @ replicate 26 0 @ replicate 50 1) =
     ([[], []],
      \<lparr>m_matrix_row = [0, 3, 7, 11],
       m_matrix_column = [0, 1, 2, 1, 2, 3, - 1, 0, 1, 2, 3, 1, 3, 2],
       m_matrix_value = [1, - (1 / 2), - (1 / 2), 1, 0, - (1 / 2), 0, - (1 / 2),
                         0, 1, - (1 / 2), - (1 / 2), 1, - (1 / 2)]\<rparr>)
   \<and> csrEntry \<lparr>m_matrix_row = [0, 3, 7, 11],
               m_matrix_column = [0, 1, 2, 0, 1, 2, 3, 0, 1, 2, 3, 1, 3, 2],
               m_matrix_value = [1, - (1 / 2), - (1 / 2), - (1 / 2), 1, 0, - (1 / 2), - (1 / 2),
                                 0, 1, - (1 / 2), - (1 / 2), 1, - (1 / 2)]\<rparr> 1 0 = - (1 / 2)
   \<and> csrEntry \<lparr>m_matrix_row = [0, 3, 7, 11],
               m_matrix_column = [0, 1, 2, 1, 2, 3, - 1, 0, 1, 2, 3, 1, 3, 2],
               m_matrix_value = [1, - (1 / 2), - (1 / 2), 1, 0, - (1 / 2), 0, - (1 / 2),
                                 0, 1, - (1 / 2), - (1 / 2), 1, - (1 / 2)]\<rparr> 1 0 = 0
   \<and> \<not> withinTolerance (- (1 / 2)) 0"
  by code_simp

subsection \<open>C10: the Hypre backend refuses per-coordinate operations\<close>

text \<open>
  C10. On the Hypre backend \<open>matrixAddValue\<close>, \<open>matrixSetValue\<close>, \<open>eliminateRow\<close>
  and \<open>eliminateRowColumn\<close> throw \<open>NotImplementedException\<close> for every input, so a
  caller that starts with any of them fails whatever it does afterwards (\<open>k\<close> is the rest
  of the caller); \<open>setCSRValues\<close> stores the view and \<open>hasSetCSRValues\<close> is always true.
\<close>

theorem hypre_per_coordinate_not_implemented:
  "hypre_matrixAddValue s row col v = Inl NotImplementedException
   \<and> hypre_matrixSetValue s row col v = Inl NotImplementedException
   \<and> hypre_eliminateRow s row v = Inl NotImplementedException
   \<and> hypre_eliminateRowColumn s row v = Inl NotImplementedException
   \<and> bindF (hypre_matrixAddValue s row col v) k = Inl NotImplementedException
   \<and> bindF (hypre_matrixSetValue s row col v) k = Inl NotImplementedException
   \<and> bindF (hypre_eliminateRow s row v) k = Inl NotImplementedException
   \<and> bindF (hypre_eliminateRowColumn s row v) k = Inl NotImplementedException
   \<and> m_csr_view (hypre_setCSRValues s view) = view
   \<and> hypre_hasSetCSRValues s"
  by (simp add: hypre_matrixAddValue_def hypre_matrixSetValue_def hypre_eliminateRow_def
      hypre_eliminateRowColumn_def hypre_setCSRValues_def hypre_hasSetCSRValues_def bindF_def)

end
